theory Spec2Isabelle
  imports Main
begin

section \<open>JavaScript values\<close>

text \<open>
  The chat route (\<^verbatim>\<open>src/app/api/chat/route.ts\<close>) and the settings dialog
  (\<^verbatim>\<open>src/components/api-config-dialog.tsx\<close>) work on untyped JSON data: the parsed
  request body, the parsed reply of the vendor, the parsed content of the browser store.
  Such a value is a \<open>jv\<close>. \<open>JUndef\<close> is JavaScript's \<^verbatim>\<open>undefined\<close>, the value of
  a property that is absent. An object is the list of its own properties in their order,
  each key once. A string is the list of the bytes of its UTF-8 text; a number is an
  integer below \<open>10 ^ 21\<close> in absolute value, which JavaScript prints in decimal digits
  (the handlers never compute with numbers, they only test and print them).
\<close>

datatype jv =
    JUndef
  | JNull
  | JBool bool
  | JNum int
  | JStr string
  | JArr "jv list"
  | JObj "(string \<times> jv) list"

text \<open>What a handler can throw. \<open>Rejected\<close> is any failure of a collaborator outside
  the repository (the network, a vendor library), with its description.\<close>

datatype js_error = TypeError | ReferenceError | SyntaxError | RangeError | Rejected string

text \<open>Truthiness, as \<^verbatim>\<open>!v\<close> and \<^verbatim>\<open>a || b\<close> test it.\<close>

fun truthy :: "jv \<Rightarrow> bool" where
  "truthy JUndef = False"
| "truthy JNull = False"
| "truthy (JBool b) = b"
| "truthy (JNum n) = (n \<noteq> 0)"
| "truthy (JStr s) = (s \<noteq> [])"
| "truthy (JArr xs) = True"
| "truthy (JObj kvs) = True"

definition js_or :: "jv \<Rightarrow> jv \<Rightarrow> jv" where
  "js_or a b = (if truthy a then a else b)"

definition nullish :: "jv \<Rightarrow> bool" where
  "nullish v = (v = JUndef \<or> v = JNull)"

text \<open>
  Reading a named property. The handlers read the properties \<^verbatim>\<open>apiKey\<close>,
  \<^verbatim>\<open>provider\<close>, \<^verbatim>\<open>model\<close>, \<^verbatim>\<open>parts\<close>, \<^verbatim>\<open>type\<close>, \<^verbatim>\<open>text\<close>, \<^verbatim>\<open>url\<close>,
  \<^verbatim>\<open>mediaType\<close>, \<^verbatim>\<open>role\<close>, \<^verbatim>\<open>content\<close>, \<^verbatim>\<open>error\<close>, \<^verbatim>\<open>message\<close> and
  \<^verbatim>\<open>choices\<close>; none of them is inherited from a prototype, so on a value that is not
  an object the result is \<^verbatim>\<open>undefined\<close>. \<open>field\<close> is the read itself, \<open>member\<close> is
  \<^verbatim>\<open>v.k\<close> (a TypeError on \<^verbatim>\<open>undefined\<close> and \<^verbatim>\<open>null\<close>), \<open>opt_member\<close> is
  \<^verbatim>\<open>v?.k\<close>.
\<close>

fun field :: "jv \<Rightarrow> string \<Rightarrow> jv" where
  "field (JObj kvs) k = (case map_of kvs k of Some v \<Rightarrow> v | None \<Rightarrow> JUndef)"
| "field v k = JUndef"

definition member :: "jv \<Rightarrow> string \<Rightarrow> js_error + jv" where
  "member v k = (if nullish v then Inl TypeError else Inr (field v k))"

definition opt_member :: "jv \<Rightarrow> string \<Rightarrow> jv" where
  "opt_member v k = (if nullish v then JUndef else field v k)"

text \<open>\<^verbatim>\<open>v?.[0]\<close>: the first element of an array, the first character of a string, the
  property \<^verbatim>\<open>"0"\<close> of an object.\<close>

fun opt_index0 :: "jv \<Rightarrow> jv" where
  "opt_index0 (JArr xs) = (case xs of [] \<Rightarrow> JUndef | x # _ \<Rightarrow> x)"
| "opt_index0 (JStr s) = (case s of [] \<Rightarrow> JUndef | c # _ \<Rightarrow> JStr [c])"
| "opt_index0 (JObj kvs) = field (JObj kvs) ''0''"
| "opt_index0 v = JUndef"

text \<open>\<^verbatim>\<open>{...obj, k: v}\<close> on an object: a property that exists keeps its place, a new one
  goes last.\<close>

fun set_field :: "(string \<times> jv) list \<Rightarrow> string \<Rightarrow> jv \<Rightarrow> (string \<times> jv) list" where
  "set_field [] k v = [(k, v)]"
| "set_field ((k', v') # kvs) k v =
     (if k' = k then (k, v) # kvs else (k', v') # set_field kvs k v)"

text \<open>Sequencing of computations that may throw.\<close>

fun thenE :: "js_error + 'a \<Rightarrow> ('a \<Rightarrow> js_error + 'b) \<Rightarrow> js_error + 'b" where
  "thenE (Inl e) f = Inl e"
| "thenE (Inr v) f = f v"

subsection \<open>Conversion to string\<close>

definition digit_char :: "nat \<Rightarrow> char" where
  "digit_char d = char_of (48 + d)"

function dec :: "nat \<Rightarrow> string" where
  "dec n = (if n < 10 then [digit_char n] else dec (n div 10) @ [digit_char (n mod 10)])"
  by pat_completeness auto
termination
  by (relation "measure (\<lambda>n. n)") auto

definition Number_toString :: "int \<Rightarrow> string" where
  "Number_toString n = (if n < 0 then CHR ''-'' # dec (nat (- n)) else dec (nat n))"

fun join :: "string \<Rightarrow> string list \<Rightarrow> string" where
  "join sep [] = []"
| "join sep [x] = x"
| "join sep (x # y # ys) = x @ sep @ join sep (y # ys)"

text \<open>
  What a template literal \<^verbatim>\<open>`${v}`\<close> prints, or the TypeError it throws. An object is
  printed by its method \<^verbatim>\<open>toString\<close>: the inherited one gives
  \<^verbatim>\<open>[object Object]\<close>, but an own property of that name hides it, and no value of
  parsed JSON can be called, so the conversion fails. An array prints its elements,
  \<^verbatim>\<open>null\<close> and \<^verbatim>\<open>undefined\<close> as nothing, with commas between them.
\<close>

fun ToString :: "jv \<Rightarrow> js_error + string"
  and ToString_elements :: "jv list \<Rightarrow> js_error + string list" where
  "ToString JUndef = Inr ''undefined''"
| "ToString JNull = Inr ''null''"
| "ToString (JBool b) = Inr (if b then ''true'' else ''false'')"
| "ToString (JNum n) = Inr (Number_toString n)"
| "ToString (JStr s) = Inr s"
| "ToString (JArr xs) =
     (case ToString_elements xs of Inl e \<Rightarrow> Inl e | Inr ss \<Rightarrow> Inr (join '','' ss))"
| "ToString (JObj kvs) =
     (if ''toString'' \<in> set (map fst kvs) then Inl TypeError else Inr ''[object Object]'')"
| "ToString_elements [] = Inr []"
| "ToString_elements (x # xs) =
     (case (if nullish x then Inr [] else ToString x) of
        Inl e \<Rightarrow> Inl e
      | Inr s \<Rightarrow>
          (case ToString_elements xs of Inl e \<Rightarrow> Inl e | Inr ss \<Rightarrow> Inr (s # ss)))"

subsection \<open>JSON.stringify\<close>

definition hex_char :: "nat \<Rightarrow> char" where
  "hex_char d = (if d < 10 then char_of (48 + d) else char_of (87 + d))"

definition escape_char :: "char \<Rightarrow> string" where
  "escape_char c =
     (let n = (of_char c :: nat) in
      if n = 34 then [CHR 0x5C, CHR 0x22]
      else if n = 92 then [CHR 0x5C, CHR 0x5C]
      else if n = 8 then [CHR 0x5C, CHR ''b'']
      else if n = 12 then [CHR 0x5C, CHR ''f'']
      else if n = 10 then [CHR 0x5C, CHR ''n'']
      else if n = 13 then [CHR 0x5C, CHR ''r'']
      else if n = 9 then [CHR 0x5C, CHR ''t'']
      else if n < 32 then [CHR 0x5C, CHR ''u'', CHR ''0'', CHR ''0'', hex_char (n div 16), hex_char (n mod 16)]
      else [c])"

definition quote :: "string \<Rightarrow> string" where
  "quote s = [CHR 0x22] @ concat (map escape_char s) @ [CHR 0x22]"

text \<open>\<open>serialize\<close> is the text of a value inside a document: \<^verbatim>\<open>undefined\<close> prints as
  \<^verbatim>\<open>null\<close> in an array, and a property whose value is \<^verbatim>\<open>undefined\<close> is left out.
  \<open>JSON_stringify\<close> is the call itself, which gives \<^verbatim>\<open>undefined\<close> (here \<open>None\<close>)
  on \<^verbatim>\<open>undefined\<close>.\<close>

fun serialize :: "jv \<Rightarrow> string" where
  "serialize JUndef = ''null''"
| "serialize JNull = ''null''"
| "serialize (JBool b) = (if b then ''true'' else ''false'')"
| "serialize (JNum n) = Number_toString n"
| "serialize (JStr s) = quote s"
| "serialize (JArr xs) = ''['' @ join '','' (map serialize xs) @ '']''"
| "serialize (JObj kvs) =
     ''{'' @ join '','' (map (\<lambda>(k, v). quote k @ '':'' @ serialize v)
                            (filter (\<lambda>(k, v). v \<noteq> JUndef) kvs)) @ ''}''"

definition JSON_stringify :: "jv \<Rightarrow> string option" where
  "JSON_stringify v = (if v = JUndef then None else Some (serialize v))"

section \<open>The chat route\<close>

subsection \<open>Requests, replies and collaborators\<close>

text \<open>
  The body of a request, as \<^verbatim>\<open>await req.json()\<close> gives it and as the first statement
  of the handler takes it apart. The field \<^verbatim>\<open>messages\<close> is \<open>None\<close> when it is absent
  or \<^verbatim>\<open>null\<close>, and is taken to be an array otherwise; \<^verbatim>\<open>xml\<close> and \<^verbatim>\<open>apiConfig\<close> are
  any value, \<open>JUndef\<close> when absent. A body that is not JSON, or that is \<^verbatim>\<open>null\<close>,
  makes that first statement throw: the request is then the \<open>Inl\<close> alternative of
  \<open>js_error + chat_body\<close>.
\<close>

record chat_body =
  body_messages :: "jv list option"
  body_xml :: jv
  body_apiConfig :: jv

datatype response_body = JsonBody jv | TextBody string | UIMessageStream

record response =
  status :: int
  headers :: "(string \<times> string) list"
  body :: response_body

text \<open>\<^verbatim>\<open>Response.json(data, {status})\<close>; the constructor refuses a status outside
  200..599.\<close>

definition json_response :: "jv \<Rightarrow> int \<Rightarrow> response" where
  "json_response data s =
     \<lparr>status = s, headers = [(''Content-Type'', ''application/json'')], body = JsonBody data\<rparr>"

definition Response_json :: "jv \<Rightarrow> int \<Rightarrow> js_error + response" where
  "Response_json data s =
     (if 200 \<le> s \<and> s \<le> 599 then Inr (json_response data s) else Inl RangeError)"

text \<open>The request that \<^verbatim>\<open>fetch\<close> sends and the reply it resolves to.\<close>

record fetch_request =
  url :: string
  http_method :: string
  request_headers :: "(string \<times> string) list"
  request_body :: string

record fetch_response =
  upstream_status :: int
  statusText :: string
  json :: "js_error + jv"

definition ok :: "fetch_response \<Rightarrow> bool" where
  "ok r = (200 \<le> upstream_status r \<and> upstream_status r \<le> 299)"

text \<open>The model bindings of the three vendor libraries: \<^verbatim>\<open>openai(id)\<close>,
  \<^verbatim>\<open>createOpenRouter({apiKey})(id)\<close> and \<^verbatim>\<open>createGoogleGenerativeAI({apiKey})(id)\<close>.
  Building one sends nothing.\<close>

datatype language_model =
    OpenAI_model jv
  | OpenRouter_model jv jv
  | Google_model jv jv

datatype schema =
    z_string
  | z_array schema
  | z_object "(string \<times> schema) list"
  | describe schema string

record tool =
  description :: string
  inputSchema :: schema

record stream_request =
  st_system :: string
  st_model :: language_model
  st_messages :: "jv list"
  st_tools :: "(string \<times> tool) list"
  st_temperature :: int

text \<open>What leaves the server towards a vendor: a \<^verbatim>\<open>fetch\<close>, or a streaming chat
  completion started by \<^verbatim>\<open>streamText\<close>.\<close>

datatype call = Fetch fetch_request | StreamText stream_request

text \<open>The collaborators that are not code of the repository: the message conversion of
  the chat library, the network, and the reply that the chat library builds around the
  stream it starts (\<^verbatim>\<open>streamText\<close> followed by \<^verbatim>\<open>toUIMessageStreamResponse\<close>; what
  either throws is the \<open>Inl\<close> alternative).\<close>

record platform =
  convertToModelMessages :: "jv list \<Rightarrow> js_error + jv list"
  fetch :: "fetch_request \<Rightarrow> js_error + fetch_response"
  toUIMessageStreamResponse :: "stream_request \<Rightarrow> js_error + response"

text \<open>A \<^verbatim>\<open>let\<close> or \<^verbatim>\<open>const\<close> binding exists from the start of its block, and reading
  it before its declaration has run throws a ReferenceError.\<close>

datatype 'a binding = Uninitialized | Initialized 'a

fun read_binding :: "'a binding \<Rightarrow> js_error + 'a" where
  "read_binding Uninitialized = Inl ReferenceError"
| "read_binding (Initialized v) = Inr v"

subsection \<open>Fixed texts\<close>

definition msg_config_missing :: string where
  "msg_config_missing = ''API '' @
     [CHR 0xE9, CHR 0x85, CHR 0x8D, CHR 0xE7, CHR 0xBD, CHR 0xAE, CHR 0xE7, CHR 0xBC, CHR 0xBA,
      CHR 0xE5, CHR 0xA4, CHR 0xB1, CHR 0xEF, CHR 0xBC, CHR 0x8C, CHR 0xE8, CHR 0xAF, CHR 0xB7,
      CHR 0xE5, CHR 0x85, CHR 0x88, CHR 0xE9, CHR 0x85, CHR 0x8D, CHR 0xE7, CHR 0xBD, CHR 0xAE]
     @ '' AI '' @
     [CHR 0xE6, CHR 0x8F, CHR 0x90, CHR 0xE4, CHR 0xBE, CHR 0x9B, CHR 0xE5, CHR 0x95, CHR 0x86]"

definition msg_unsupported_provider :: string where
  "msg_unsupported_provider =
     [CHR 0xE4, CHR 0xB8, CHR 0x8D, CHR 0xE6, CHR 0x94, CHR 0xAF, CHR 0xE6, CHR 0x8C, CHR 0x81,
      CHR 0xE7, CHR 0x9A, CHR 0x84]
     @ '' AI '' @
     [CHR 0xE6, CHR 0x8F, CHR 0x90, CHR 0xE4, CHR 0xBE, CHR 0x9B, CHR 0xE5, CHR 0x95, CHR 0x86]"

definition msg_siliconflow_error :: string where
  "msg_siliconflow_error = ''SiliconFlow API'' @
     [CHR 0xE9, CHR 0x94, CHR 0x99, CHR 0xE8, CHR 0xAF, CHR 0xAF] @ '': ''"

definition systemMessage_lines :: "string list" where
  \<open>systemMessage_lines =
    [''You are an expert diagram creation assistant specializing in draw.io XML generation.'',
     ''Your primary function is crafting clear, well-organized visual diagrams through precise XML specifications.'',
     ''You can see the image that user uploaded.'',
     ''Note that when you need to generate diagram about aws architecture, use **AWS 2025 icons**.'',
     '''',
     ''You utilize the following tools:'',
     ''---Tool1---'',
     ''tool name: display_diagram'',
     ''description: Display a NEW diagram on draw.io. Use this when creating a diagram from scratch or when major structural changes are needed.'',
     ''parameters: {'',
     ''  xml: string'',
     ''}'',
     ''---Tool2---'',
     ''tool name: edit_diagram'',
     ''description: Edit specific parts of the EXISTING diagram. Use this when making small targeted changes like adding/removing elements, changing labels, or adjusting properties. This is more efficient than regenerating the entire XML.'',
     ''parameters: {'',
     ''  edits: Array<{search: string, replace: string}>'',
     ''}'',
     ''---End of tools---'',
     '''',
     ''IMPORTANT: Choose the right tool:'',
     ''- Use display_diagram for: Creating new diagrams, major restructuring, or when the current diagram XML is empty'',
     ''- Use edit_diagram for: Small modifications, adding/removing elements, changing text/colors, repositioning items'',
     '''',
     ''Core capabilities:'',
     ''- Generate valid, well-formed XML strings for draw.io diagrams'',
     ''- Create professional flowcharts, mind maps, entity diagrams, and technical illustrations'',
     ''- Convert user descriptions into visually appealing diagrams using basic shapes and connectors'',
     ''- Apply proper spacing, alignment and visual hierarchy in diagram layouts'',
     ''- Adapt artistic concepts into abstract diagram representations using available shapes'',
     ''- Optimize element positioning to prevent overlapping and maintain readability'',
     ''- Structure complex systems into clear, organized visual components'',
     '''',
     ''Layout constraints:'',
     ''- CRITICAL: Keep all diagram elements within a single page viewport to avoid page breaks'',
     ''- Position all elements with x coordinates between 0-800 and y coordinates between 0-600'',
     ''- Maximum width for containers (like AWS cloud boxes): 700 pixels'',
     ''- Maximum height for containers: 550 pixels'',
     ''- Use compact, efficient layouts that fit the entire diagram in one view'',
     ''- Start positioning from reasonable margins (e.g., x=40, y=40) and keep elements grouped closely'',
     ''- For large diagrams with many elements, use vertical stacking or grid layouts that stay within bounds'',
     ''- Avoid spreading elements too far apart horizontally - users should see the complete diagram without a page break line'',
     '''',
     ''Note that:'',
     ''- Focus on producing clean, professional diagrams that effectively communicate the intended information through thoughtful layout and design choices.'',
     ''- When artistic drawings are requested, creatively compose them using standard diagram shapes and connectors while maintaining visual clarity.'',
     ''- Return XML only via tool calls, never in text responses.'',
     ''- If user asks you to replicate a diagram based on an image, remember to match the diagram style and layout as closely as possible. Especially, pay attention to the lines and shapes, for example, if the lines are straight or curved, and if the shapes are rounded or square.'',
     ''- Note that when you need to generate diagram about aws architecture, use **AWS 2025 icons**.'',
     '''',
     ''When using edit_diagram tool:'',
     ''- Keep edits minimal - only include the specific line being changed plus 1-2 surrounding lines for context if needed'',
     ''- Example GOOD edit: {"search": "  <mxCell id="2" value="Old Text">", "replace": "  <mxCell id="2" value="New Text">"}'',
     ''- Example BAD edit: Including 10+ unchanged lines just to change one attribute'',
     ''- For multiple changes, use separate edits: [{"search": "line1", "replace": "new1"}, {"search": "line2", "replace": "new2"}]'',
     ''- CRITICAL: If edit_diagram fails because the search pattern cannot be found, fall back to using display_diagram to regenerate the entire diagram with your changes. Do NOT keep trying edit_diagram with different search patterns.'']\<close>

definition display_diagram_description_lines :: "string list" where
  \<open>display_diagram_description_lines =
    [''Display a diagram on draw.io. You only need to pass the nodes inside the <root> tag (including the <root> tag itself) in the XML string.'',
     ''          For example:'',
     ''          <root>'',
     ''            <mxCell id="0"/>'',
     ''            <mxCell id="1" parent="0"/>'',
     ''            <mxGeometry x="20" y="20" width="100" height="100" as="geometry"/>'',
     ''            <mxCell id="2" value="Hello, World!" style="shape=rectangle" parent="1">'',
     ''              <mxGeometry x="20" y="20" width="100" height="100" as="geometry"/>'',
     ''            </mxCell>'',
     ''          </root>'',
     ''          - Note that when you need to generate diagram about aws architecture, use **AWS 2025 icons**.'',
     ''          '']\<close>

definition edit_diagram_description_lines :: "string list" where
  \<open>edit_diagram_description_lines =
    [''Edit specific parts of the current diagram by replacing exact line matches. Use this tool to make targeted fixes without regenerating the entire XML.'',
     ''IMPORTANT: Keep edits concise:'',
     ''- Only include the lines that are changing, plus 1-2 surrounding lines for context if needed'',
     ''- Break large changes into multiple smaller edits'',
     ''- Each search must contain complete lines (never truncate mid-line)'',
     ''- First match only - be specific enough to target the right element'']\<close>

definition systemMessage :: string where
  "systemMessage = [CHR 0x0A] @ join [CHR 0x0A] systemMessage_lines @ [CHR 0x0A]"

definition display_diagram :: tool where
  "display_diagram =
     \<lparr>description = join [CHR 0x0A] display_diagram_description_lines,
      inputSchema =
        z_object [(''xml'', describe z_string ''XML string to be displayed on draw.io'')]\<rparr>"

definition edit_diagram :: tool where
  "edit_diagram =
     \<lparr>description = join [CHR 0x0A] edit_diagram_description_lines,
      inputSchema =
        z_object
          [(''edits'',
            describe
              (z_array
                (z_object
                  [(''search'',
                    describe z_string
                      ''Exact lines to search for (including whitespace and indentation)''),
                   (''replace'', describe z_string ''Replacement lines'')]))
              ''Array of search/replace pairs to apply sequentially'')]\<rparr>"

subsection \<open>The match against the fenced block\<close>

text \<open>
  The regular expression of the SiliconFlow branch is
  \<^verbatim>\<open>/```xml\s*([\s\S]*?)\s*```/\<close>. \<open>space_width s\<close> is the number of bytes of a
  character of the class \<^verbatim>\<open>\s\<close> at the head of \<open>s\<close> (tab, line feed, vertical tab, form
  feed, carriage return, space, U+00A0, U+1680, U+2000 to U+200A, U+2028, U+2029, U+202F,
  U+205F, U+3000, U+FEFF), and 0 when there is none.
\<close>

definition space_width :: "string \<Rightarrow> nat" where
  "space_width s =
     (let b1 = map of_char (take 1 s) :: nat list;
          b2 = map of_char (take 2 s) :: nat list;
          b3 = map of_char (take 3 s) :: nat list
      in if b1 \<in> set [[9], [10], [11], [12], [13], [32]] then 1
         else if b2 = [0xC2, 0xA0] then 2
         else if b3 \<in> set ([[0xE1, 0x9A, 0x80], [0xE2, 0x80, 0xA8], [0xE2, 0x80, 0xA9],
                            [0xE2, 0x80, 0xAF], [0xE2, 0x81, 0x9F], [0xE3, 0x80, 0x80],
                            [0xEF, 0xBB, 0xBF]]
                           @ map (\<lambda>k. [0xE2, 0x80, k]) [0x80 ..< 0x8B]) then 3
         else 0)"

text \<open>The greedy \<^verbatim>\<open>\s*\<close>.\<close>

function skip_spaces :: "string \<Rightarrow> string" where
  "skip_spaces s = (if space_width s = 0 then s else skip_spaces (drop (space_width s) s))"
  by pat_completeness auto
termination
proof (relation "measure length")
  show "wf (measure length)" by simp
next
  fix s :: string
  assume w: "space_width s \<noteq> 0"
  have "space_width [] = 0" by (simp add: space_width_def)
  with w have "s \<noteq> []" by auto
  with w show "(drop (space_width s) s, s) \<in> measure length"
    by (cases s) auto
qed

definition fence :: string where
  "fence = [CHR 0x60, CHR 0x60, CHR 0x60]"

text \<open>Whether \<^verbatim>\<open>\s*```\<close> matches at the head of \<open>s\<close>.\<close>

definition closing_fence :: "string \<Rightarrow> bool" where
  "closing_fence s = (take 3 (skip_spaces s) = fence)"

text \<open>The lazy group \<^verbatim>\<open>([\s\S]*?)\<close> followed by \<^verbatim>\<open>\s*```\<close>: the shortest text after
  which the closing fence matches.\<close>

fun lazy_group :: "string \<Rightarrow> string option" where
  "lazy_group [] = None"
| "lazy_group (c # cs) =
     (if closing_fence (c # cs) then Some [] else map_option ((#) c) (lazy_group cs))"

text \<open>The whole expression, tried at each position from the left; the result is the
  text of the group of the first match.\<close>

fun match_xml_block :: "string \<Rightarrow> string option" where
  "match_xml_block [] = None"
| "match_xml_block (c # cs) =
     (if take 6 (c # cs) = fence @ ''xml''
      then (case lazy_group (skip_spaces (drop 6 (c # cs))) of
              Some x \<Rightarrow> Some x
            | None \<Rightarrow> match_xml_block cs)
      else match_xml_block cs)"

text \<open>\<^verbatim>\<open>content.match(...)\<close>: only a string has the method.\<close>

fun String_match :: "jv \<Rightarrow> js_error + string option" where
  "String_match (JStr s) = Inr (match_xml_block s)"
| "String_match v = Inl TypeError"

subsection \<open>The SiliconFlow branch\<close>

fun mapE :: "('a \<Rightarrow> js_error + 'b) \<Rightarrow> 'a list \<Rightarrow> js_error + 'b list" where
  "mapE f [] = Inr []"
| "mapE f (x # xs) = thenE (f x) (\<lambda>y. thenE (mapE f xs) (\<lambda>ys. Inr (y # ys)))"

definition siliconflow_message :: "jv \<Rightarrow> js_error + jv" where
  "siliconflow_message msg =
     thenE (member msg ''role'') (\<lambda>role.
     thenE (member msg ''content'') (\<lambda>content.
       Inr (JObj [(''role'', role),
                  (''content'',
                   (case content of
                      JStr s \<Rightarrow> JStr s
                    | _ \<Rightarrow> (case JSON_stringify content of
                              None \<Rightarrow> JUndef
                            | Some s \<Rightarrow> JStr s)))])))"

text \<open>The request of lines 63 to 74; \<open>key\<close> is the key as the template literal of
  line 66 has printed it.\<close>

definition siliconflow_request :: "string \<Rightarrow> jv \<Rightarrow> jv list \<Rightarrow> fetch_request" where
  "siliconflow_request key model siliconflowMessages =
     \<lparr>url = ''https://api.siliconflow.cn/v1/chat/completions'',
      http_method = ''POST'',
      request_headers =
        [(''Authorization'', ''Bearer '' @ key),
         (''Content-Type'', ''application/json'')],
      request_body =
        serialize
          (JObj [(''model'', js_or model (JStr ''Qwen/Qwen2.5-72B-Instruct'')),
                 (''messages'', JArr siliconflowMessages),
                 (''temperature'', JNum 0)])\<rparr>"

definition sse_response :: "jv \<Rightarrow> response" where
  "sse_response payload =
     \<lparr>status = 200,
      headers =
        [(''Content-Type'', ''text/event-stream''),
         (''Cache-Control'', ''no-cache''),
         (''Connection'', ''keep-alive'')],
      body =
        TextBody (''data: '' @ serialize payload @ [CHR 0x0A, CHR 0x0A]
                  @ ''data: [DONE]'' @ [CHR 0x0A, CHR 0x0A])\<rparr>"

text \<open>What the branch does with the reply of the vendor (lines 76 to 115).\<close>

definition siliconflow_reply :: "fetch_response \<Rightarrow> js_error + response" where
  "siliconflow_reply siliconflowResponse =
     (if \<not> ok siliconflowResponse then
        thenE (json siliconflowResponse) (\<lambda>errorData.
        thenE (member errorData ''error'') (\<lambda>err.
        thenE (ToString (js_or (opt_member err ''message'')
                               (JStr (statusText siliconflowResponse)))) (\<lambda>message.
          Response_json
            (JObj [(''error'', JStr (msg_siliconflow_error @ message))])
            (upstream_status siliconflowResponse))))
      else
        thenE (json siliconflowResponse) (\<lambda>result.
        thenE (member result ''choices'') (\<lambda>choices.
          let content =
                js_or (opt_member (opt_member (opt_index0 choices) ''message'') ''content'')
                      (JStr [])
          in thenE (String_match content) (\<lambda>toolCallMatch.
               (case toolCallMatch of
                  Some xml \<Rightarrow>
                    Inr (sse_response
                           (JObj [(''type'', JStr ''text''), (''text'', JStr xml),
                                  (''tool'', JStr ''display_diagram'')]))
                | None \<Rightarrow>
                    Inr (sse_response
                           (JObj [(''type'', JStr ''text''), (''text'', content)])))))))"

text \<open>The branch itself (lines 50 to 115). Its first statement reads
  \<^verbatim>\<open>enhancedMessages\<close>, a \<^verbatim>\<open>let\<close> binding of the enclosing block.\<close>

definition siliconflow_case ::
  "platform \<Rightarrow> jv \<Rightarrow> jv \<Rightarrow> jv list binding \<Rightarrow> call list \<times> (js_error + response)" where
  "siliconflow_case pf apiKey model enhancedMessages =
     (case thenE (read_binding enhancedMessages) (mapE siliconflow_message) of
        Inl e \<Rightarrow> ([], Inl e)
      | Inr siliconflowMessages \<Rightarrow>
          (case ToString apiKey of
             Inl e \<Rightarrow> ([], Inl e)
           | Inr key \<Rightarrow>
               (let rq = siliconflow_request key model siliconflowMessages
                in ([Fetch rq], thenE (fetch pf rq) siliconflow_reply))))"

subsection \<open>Assembling the messages\<close>

text \<open>\<^verbatim>\<open>messages[messages.length - 1]\<close>.\<close>

fun last_message :: "jv list option \<Rightarrow> js_error + jv" where
  "last_message None = Inl TypeError"
| "last_message (Some []) = Inr JUndef"
| "last_message (Some (m # ms)) = Inr (last (m # ms))"

text \<open>\<^verbatim>\<open>parts.find(part => part.type === t)\<close> and
  \<^verbatim>\<open>parts.filter(part => part.type === t)\<close> on an array: the test throws on an element
  that is \<^verbatim>\<open>null\<close>; \<open>find\<close> stops at the first hit.\<close>

fun find_type :: "string \<Rightarrow> jv list \<Rightarrow> js_error + jv" where
  "find_type t [] = Inr JUndef"
| "find_type t (part # parts) =
     thenE (member part ''type'') (\<lambda>ty. if ty = JStr t then Inr part else find_type t parts)"

fun filter_type :: "string \<Rightarrow> jv list \<Rightarrow> js_error + jv list" where
  "filter_type t [] = Inr []"
| "filter_type t (part # parts) =
     thenE (member part ''type'') (\<lambda>ty.
     thenE (filter_type t parts) (\<lambda>rest. Inr (if ty = JStr t then part # rest else rest)))"

text \<open>\<^verbatim>\<open>parts?.find(...)\<close> and \<^verbatim>\<open>parts?.filter(...) || []\<close>: nothing is called when
  \<open>parts\<close> is \<^verbatim>\<open>undefined\<close> or \<^verbatim>\<open>null\<close>, and a value that is not an array has no
  such method.\<close>

fun opt_find :: "string \<Rightarrow> jv \<Rightarrow> js_error + jv" where
  "opt_find t JUndef = Inr JUndef"
| "opt_find t JNull = Inr JUndef"
| "opt_find t (JArr parts) = find_type t parts"
| "opt_find t v = Inl TypeError"

fun opt_filter_or_empty :: "string \<Rightarrow> jv \<Rightarrow> js_error + jv list" where
  "opt_filter_or_empty t JUndef = Inr []"
| "opt_filter_or_empty t JNull = Inr []"
| "opt_filter_or_empty t (JArr parts) = filter_type t parts"
| "opt_filter_or_empty t v = Inl TypeError"

text \<open>The template literal of lines 190 to 198: its two values are printed in their
  order, and either conversion may throw.\<close>

definition formattedTextContent :: "jv \<Rightarrow> jv \<Rightarrow> js_error + string" where
  \<open>formattedTextContent xml lastMessageText =
     thenE (ToString (js_or xml (JStr []))) (\<lambda>xmlText.
     thenE (ToString lastMessageText) (\<lambda>userText.
       Inr ([CHR 0x0A] @ ''Current diagram XML:'' @ [CHR 0x0A]
            @ ''"""xml'' @ [CHR 0x0A]
            @ xmlText @ [CHR 0x0A]
            @ ''"""'' @ [CHR 0x0A]
            @ ''User input:'' @ [CHR 0x0A]
            @ ''"""md'' @ [CHR 0x0A]
            @ userText @ [CHR 0x0A]
            @ ''"""'')))\<close>

definition image_part :: "jv \<Rightarrow> jv" where
  "image_part filePart =
     JObj [(''type'', JStr ''image''),
           (''image'', field filePart ''url''),
           (''mimeType'', field filePart ''mediaType'')]"

text \<open>The own properties that \<^verbatim>\<open>{...v}\<close> copies.\<close>

fun own_properties :: "jv \<Rightarrow> (string \<times> jv) list" where
  "own_properties (JObj kvs) = kvs"
| "own_properties (JArr xs) = zip (map dec [0 ..< length xs]) xs"
| "own_properties (JStr s) = zip (map dec [0 ..< length s]) (map (\<lambda>c. JStr [c]) s)"
| "own_properties v = []"

text \<open>Lines 202 to 227: the last message of the converted list, when it is a user
  message, gets the new content; the list is otherwise left as it is.\<close>

definition augment :: "string \<Rightarrow> jv list \<Rightarrow> jv list \<Rightarrow> js_error + jv list" where
  "augment text fileParts modelMessages =
     (if length modelMessages \<ge> 1 then
        (let lastModelMessage = last modelMessages
         in thenE (member lastModelMessage ''role'') (\<lambda>role.
              if role = JStr ''user'' then
                (let contentParts =
                       JObj [(''type'', JStr ''text''), (''text'', JStr text)]
                       # map image_part fileParts
                 in Inr (butlast modelMessages
                         @ [JObj (set_field (own_properties lastModelMessage)
                                    ''content'' (JArr contentParts))]))
              else Inr modelMessages))
      else Inr modelMessages)"

text \<open>Lines 182 to 227, in the order of the source.\<close>

definition assemble :: "platform \<Rightarrow> chat_body \<Rightarrow> js_error + jv list" where
  "assemble pf b =
     thenE (last_message (body_messages b)) (\<lambda>lastMessage.
     thenE (member lastMessage ''parts'') (\<lambda>parts.
     thenE (opt_find ''text'' parts) (\<lambda>found.
       let lastMessageText = js_or (opt_member found ''text'') (JStr [])
       in thenE (opt_filter_or_empty ''file'' parts) (\<lambda>fileParts.
          thenE (formattedTextContent (body_xml b) lastMessageText) (\<lambda>text.
          thenE (case body_messages b of
                   None \<Rightarrow> Inl TypeError
                 | Some messages \<Rightarrow> convertToModelMessages pf messages) (\<lambda>modelMessages.
            augment text fileParts modelMessages))))))"

subsection \<open>The streaming path and the handler\<close>

definition streamText_request :: "language_model \<Rightarrow> jv list \<Rightarrow> stream_request" where
  "streamText_request selectedModel enhancedMessages =
     \<lparr>st_system = systemMessage,
      st_model = selectedModel,
      st_messages = enhancedMessages,
      st_tools = [(''display_diagram'', display_diagram), (''edit_diagram'', edit_diagram)],
      st_temperature = 0\<rparr>"

text \<open>Lines 123 to 291, which follow the \<^verbatim>\<open>switch\<close> for the three providers whose
  case ends in \<^verbatim>\<open>break\<close>.\<close>

definition shared_path ::
  "platform \<Rightarrow> chat_body \<Rightarrow> language_model \<Rightarrow> call list \<times> (js_error + response)" where
  "shared_path pf b selectedModel =
     (case assemble pf b of
        Inl e \<Rightarrow> ([], Inl e)
      | Inr enhancedMessages \<Rightarrow>
          (let rq = streamText_request selectedModel enhancedMessages
           in ([StreamText rq], toUIMessageStreamResponse pf rq)))"

text \<open>
  The body of the \<^verbatim>\<open>try\<close> block. The result is the list of the calls made towards a
  vendor, and the reply, or the exception that leaves the block. The binding
  \<^verbatim>\<open>enhancedMessages\<close> is declared at line 202, below the \<^verbatim>\<open>switch\<close>: while the
  \<^verbatim>\<open>switch\<close> runs it is not initialised.
\<close>

definition POST_try ::
  "platform \<Rightarrow> js_error + chat_body \<Rightarrow> call list \<times> (js_error + response)" where
  "POST_try pf req_json =
     (case req_json of
        Inl e \<Rightarrow> ([], Inl e)
      | Inr b \<Rightarrow>
          (let apiConfig = body_apiConfig b
           in if \<not> truthy apiConfig \<or> \<not> truthy (field apiConfig ''apiKey'')
                 \<or> \<not> truthy (field apiConfig ''provider'')
              then ([], Response_json (JObj [(''error'', JStr msg_config_missing)]) 400)
              else
                (let provider = field apiConfig ''provider'';
                     apiKey = field apiConfig ''apiKey'';
                     model = field apiConfig ''model'';
                     enhancedMessages = Uninitialized
                 in if provider = JStr ''openai'' then
                      shared_path pf b (OpenAI_model (js_or model (JStr ''gpt-4'')))
                    else if provider = JStr ''openrouter'' then
                      shared_path pf b
                        (OpenRouter_model apiKey (js_or model (JStr ''openai/gpt-4o'')))
                    else if provider = JStr ''google'' then
                      shared_path pf b
                        (Google_model apiKey (js_or model (JStr ''gemini-1.5-pro'')))
                    else if provider = JStr ''siliconflow'' then
                      siliconflow_case pf apiKey model enhancedMessages
                    else
                      ([], Response_json
                             (JObj [(''error'', JStr msg_unsupported_provider)]) 400))))"

text \<open>The handler: the \<^verbatim>\<open>catch\<close> turns any exception into the fixed reply.\<close>

definition POST :: "platform \<Rightarrow> js_error + chat_body \<Rightarrow> call list \<times> response" where
  "POST pf req_json =
     (case POST_try pf req_json of
        (calls, Inl e) \<Rightarrow>
          (calls, json_response (JObj [(''error'', JStr ''Internal server error'')]) 500)
      | (calls, Inr r) \<Rightarrow> (calls, r))"

text \<open>The error callback of the stream (lines 273 to 287). What reaches it is any value,
  or an instance of \<^verbatim>\<open>Error\<close> with its message.\<close>

datatype thrown = Value jv | ErrorObject string

fun errorHandler :: "thrown \<Rightarrow> string option" where
  "errorHandler (Value JUndef) = Some ''unknown error''"
| "errorHandler (Value JNull) = Some ''unknown error''"
| "errorHandler (Value (JStr s)) = Some s"
| "errorHandler (ErrorObject message) = Some message"
| "errorHandler (Value v) = JSON_stringify v"

section \<open>The settings dialog\<close>

text \<open>The table of providers of \<^verbatim>\<open>api-config-dialog.tsx\<close> (lines 28 to 79).\<close>

record provider_info =
  provider_id :: string
  provider_name :: string
  models :: "string list"
  defaultModel :: string
  placeholder :: string
  apiUrl :: string
  modelsUrl :: string
  getModelsApi :: "string option"

definition providers :: "provider_info list" where
  "providers =
     [\<lparr>provider_id = ''openai'',
       provider_name = ''OpenAI'',
       models = [''gpt-4'', ''gpt-4-turbo'', ''gpt-3.5-turbo''],
       defaultModel = ''gpt-4'',
       placeholder = ''sk-...'',
       apiUrl = ''https://platform.openai.com/api-keys'',
       modelsUrl = ''https://platform.openai.com/docs/models'',
       getModelsApi = None\<rparr>,
      \<lparr>provider_id = ''openrouter'',
       provider_name = ''OpenRouter'',
       models = [''openai/gpt-4o'', ''openai/gpt-4-turbo'', ''anthropic/claude-3.5-sonnet'',
                 ''moonshotai/kimi-k2:free''],
       defaultModel = ''openai/gpt-4o'',
       placeholder = ''sk-or-...'',
       apiUrl = ''https://openrouter.ai/keys'',
       modelsUrl = ''https://openrouter.ai/models'',
       getModelsApi = Some ''https://openrouter.ai/api/v1/models''\<rparr>,
      \<lparr>provider_id = ''google'',
       provider_name = ''Google Gemini'',
       models = [''gemini-1.5-pro'', ''gemini-1.5-flash''],
       defaultModel = ''gemini-1.5-pro'',
       placeholder = ''AIza...'',
       apiUrl = ''https://aistudio.google.com/app/apikey'',
       modelsUrl = ''https://ai.google.dev/gemini-api/docs/models/gemini'',
       getModelsApi = None\<rparr>,
      \<lparr>provider_id = ''siliconflow'',
       provider_name = ''SiliconFlow ('' @
         [CHR 0xE7, CHR 0xA1, CHR 0x85, CHR 0xE5, CHR 0x9F, CHR 0xBA, CHR 0xE6, CHR 0xB5, CHR 0x81,
          CHR 0xE5, CHR 0x8A, CHR 0xA8] @ '')'',
       models = [''Qwen/Qwen2.5-72B-Instruct'', ''Qwen/Qwen2.5-Coder-32B-Instruct'',
                 ''deepseek-chat'', ''deepseek-coder''],
       defaultModel = ''Qwen/Qwen2.5-72B-Instruct'',
       placeholder = ''sk-...'',
       apiUrl = ''https://cloud.siliconflow.cn/me/account/ak'',
       modelsUrl = ''https://docs.siliconflow.cn/cn/userguide/introduction'',
       getModelsApi = Some ''https://api.siliconflow.cn/v1/models''\<rparr>]"

text \<open>
  The state of the component that the claims are about: the configuration (an
  \<^verbatim>\<open>ApiConfig\<close> by its declared type, but \<^verbatim>\<open>setConfig(parsed)\<close> stores whatever was
  parsed), and what \<^verbatim>\<open>console.error\<close> has printed. The browser store maps a key to a
  text.
\<close>

record dialog_state =
  config :: jv
  console :: "string list"

type_synonym storage = "string \<rightharpoonup> string"

definition initial_state :: dialog_state where
  "initial_state =
     \<lparr>config = JObj [(''provider'', JStr ''openai''), (''apiKey'', JStr []),
                     (''model'', JStr ''gpt-4'')],
      console = []\<rparr>"

text \<open>
  The body of the \<^verbatim>\<open>try\<close> block of the effect (lines 100 to 108): the value handed to
  \<^verbatim>\<open>setConfig\<close>, or the exception. \<^verbatim>\<open>JSON.parse\<close> belongs to the browser and is a
  parameter. The assignment \<^verbatim>\<open>parsed.model = ...\<close> is reached only when
  \<^verbatim>\<open>parsed.provider\<close> is the id of a provider, so only for an object.
\<close>

definition parse_saved :: "(string \<Rightarrow> js_error + jv) \<Rightarrow> string \<Rightarrow> js_error + jv" where
  "parse_saved JSON_parse savedConfig =
     thenE (JSON_parse savedConfig) (\<lambda>parsed.
     thenE (member parsed ''model'') (\<lambda>m.
       if \<not> truthy m then
         thenE (member parsed ''provider'') (\<lambda>pid.
           (case find (\<lambda>p. JStr (provider_id p) = pid) providers of
              Some provider \<Rightarrow>
                (case parsed of
                   JObj kvs \<Rightarrow> Inr (JObj (set_field kvs ''model'' (JStr (defaultModel provider))))
                 | _ \<Rightarrow> Inr parsed)
            | None \<Rightarrow> Inr parsed))
       else Inr parsed))"

text \<open>The effect that runs when the component mounts (lines 96 to 113).\<close>

definition load :: "(string \<Rightarrow> js_error + jv) \<Rightarrow> storage \<Rightarrow> dialog_state \<Rightarrow> dialog_state" where
  "load JSON_parse localStorage st =
     (case localStorage ''ai-draw-config'' of
        None \<Rightarrow> st
      | Some savedConfig \<Rightarrow>
          if savedConfig = [] then st
          else
            (case parse_saved JSON_parse savedConfig of
               Inl error \<Rightarrow> st\<lparr>console := console st @ [''Failed to parse saved config:'']\<rparr>
             | Inr parsed \<Rightarrow> st\<lparr>config := parsed\<rparr>))"

text \<open>\<^verbatim>\<open>handleSave\<close> (lines 166 to 172) writes the store and reloads the page; the
  component then mounts again, from its initial state.\<close>

definition handleSave :: "dialog_state \<Rightarrow> storage \<Rightarrow> storage" where
  "handleSave st localStorage =
     localStorage(''ai-draw-config'' \<mapsto>
       (case JSON_stringify (config st) of None \<Rightarrow> ''undefined'' | Some s \<Rightarrow> s))"

definition reload :: "(string \<Rightarrow> js_error + jv) \<Rightarrow> storage \<Rightarrow> dialog_state" where
  "reload JSON_parse localStorage = load JSON_parse localStorage initial_state"

section \<open>Collaborators of the examples\<close>

text \<open>A platform whose message conversion hands the messages on as they are and whose
  network is down.\<close>

definition example_platform :: platform where
  "example_platform =
     \<lparr>convertToModelMessages = (\<lambda>ms. Inr ms),
      fetch = (\<lambda>rq. Inl (Rejected ''offline'')),
      toUIMessageStreamResponse =
        (\<lambda>rq. Inr \<lparr>status = 200, headers = [], body = UIMessageStream\<rparr>)\<rparr>"

text \<open>A parser that knows the documents of the listed values: the text that
  \<open>serialize\<close> gives for one of them parses back to it, any other text is refused.\<close>

definition parse_known :: "jv list \<Rightarrow> string \<Rightarrow> js_error + jv" where
  "parse_known vs s =
     (case find (\<lambda>v. serialize v = s) vs of Some v \<Rightarrow> Inr v | None \<Rightarrow> Inl SyntaxError)"

text \<open>A request for the provider \<^verbatim>\<open>google\<close>: an earlier turn of the assistant, then
  a user turn with a text and an image.\<close>

definition example_body :: chat_body where
  "example_body =
     \<lparr>body_messages =
        Some [JObj [(''role'', JStr ''assistant''), (''parts'', JArr [])],
              JObj [(''role'', JStr ''user''),
                    (''parts'',
                     JArr [JObj [(''type'', JStr ''text''), (''text'', JStr ''add a node'')],
                           JObj [(''type'', JStr ''file''), (''url'', JStr ''data:x''),
                                 (''mediaType'', JStr ''image/png'')]])]],
      body_xml = JStr ''<root/>'',
      body_apiConfig = JObj [(''provider'', JStr ''google''), (''apiKey'', JStr ''k'')]\<rparr>"

text \<open>The same request for the provider \<^verbatim>\<open>siliconflow\<close>.\<close>

definition siliconflow_body :: chat_body where
  "siliconflow_body =
     example_body
       \<lparr>body_apiConfig := JObj [(''provider'', JStr ''siliconflow''), (''apiKey'', JStr ''k'')]\<rparr>"

text \<open>A vendor that answers 200 with a completion whose text is a block fenced as
  \<^verbatim>\<open>xml\<close> around \<^verbatim>\<open><root/>\<close>, and a vendor that answers 401 with the error message
  \<^verbatim>\<open>bad key\<close>.\<close>

definition fenced_content :: string where
  "fenced_content = fence @ ''xml'' @ [CHR 0x0A] @ ''<root/>'' @ [CHR 0x0A] @ fence"

definition fenced_reply :: fetch_response where
  "fenced_reply =
     \<lparr>upstream_status = 200, statusText = ''OK'',
      json =
        Inr (JObj [(''choices'',
                    JArr [JObj [(''message'',
                                 JObj [(''content'', JStr fenced_content)])]])])\<rparr>"

definition fenced_platform :: platform where
  "fenced_platform = example_platform\<lparr>fetch := (\<lambda>rq. Inr fenced_reply)\<rparr>"

definition bad_key_reply :: fetch_response where
  "bad_key_reply =
     \<lparr>upstream_status = 401, statusText = ''Unauthorized'',
      json = Inr (JObj [(''error'', JObj [(''message'', JStr ''bad key'')])])\<rparr>"

definition bad_key_platform :: platform where
  "bad_key_platform = example_platform\<lparr>fetch := (\<lambda>rq. Inr bad_key_reply)\<rparr>"

text \<open>A configuration whose model is present and empty.\<close>

definition empty_model_config :: jv where
  "empty_model_config =
     JObj [(''provider'', JStr ''openai''), (''apiKey'', JStr ''k''), (''model'', JStr [])]"

text \<open>The request \<open>example_body\<close> with a diagram that is an object with a property
  \<^verbatim>\<open>toString\<close>, and a request for \<^verbatim>\<open>openai\<close> with a key and no message.\<close>

definition unprintable_xml_body :: chat_body where
  "unprintable_xml_body = example_body\<lparr>body_xml := JObj [(''toString'', JNum 1)]\<rparr>"

definition empty_messages_body :: chat_body where
  "empty_messages_body =
     \<lparr>body_messages = Some [], body_xml = JStr ''<root/>'',
      body_apiConfig = JObj [(''provider'', JStr ''openai''), (''apiKey'', JStr ''k'')]\<rparr>"

section \<open>Validation and the unsupported provider\<close>

lemma truthy_field_object: "truthy (field v k) \<Longrightarrow> truthy v"
  by (cases v) auto

lemma POST_try_config_missing:
  assumes "\<not> truthy (body_apiConfig b) \<or> \<not> truthy (field (body_apiConfig b) ''apiKey'')
           \<or> \<not> truthy (field (body_apiConfig b) ''provider'')"
  shows "POST_try pf (Inr b) =
           ([], Inr (json_response (JObj [(''error'', JStr msg_config_missing)]) 400))"
  using assms by (auto simp add: POST_try_def Response_json_def Let_def)

text \<open>
  C1, amended. When the body of the request parses to a value other than \<^verbatim>\<open>null\<close>, and
  it has no \<^verbatim>\<open>apiConfig\<close>, or its \<^verbatim>\<open>apiKey\<close> or \<^verbatim>\<open>provider\<close> is absent or empty
  (\<open>JUndef\<close> and \<open>JStr []\<close> are not truthy; neither are \<^verbatim>\<open>null\<close>, \<^verbatim>\<open>false\<close> and 0), the
  handler answers 400 with a JSON body that has an \<^verbatim>\<open>error\<close> field, and calls no vendor,
  whatever the platform and the rest of the body.
\<close>

theorem C1_missing_config_400:
  assumes "\<not> truthy (body_apiConfig b) \<or> \<not> truthy (field (body_apiConfig b) ''apiKey'')
           \<or> \<not> truthy (field (body_apiConfig b) ''provider'')"
  shows "POST pf (Inr b) =
           ([], \<lparr>status = 400, headers = [(''Content-Type'', ''application/json'')],
                 body = JsonBody (JObj [(''error'', JStr msg_config_missing)])\<rparr>)"
  using POST_try_config_missing [OF assms, of pf]
  by (simp add: POST_def json_response_def)

theorem C1_missing_config_400_witness:
  "\<not> truthy (field (JObj [(''provider'', JStr ''openai''), (''apiKey'', JStr [])]) ''apiKey'')
   \<and> POST example_platform
        (Inr \<lparr>body_messages = Some [], body_xml = JStr [],
               body_apiConfig = JObj [(''provider'', JStr ''openai''), (''apiKey'', JStr [])]\<rparr>) =
       ([], \<lparr>status = 400, headers = [(''Content-Type'', ''application/json'')],
              body = JsonBody (JObj [(''error'', JStr msg_config_missing)])\<rparr>)"
  using C1_missing_config_400
    [of "\<lparr>body_messages = Some [], body_xml = JStr [],
          body_apiConfig = JObj [(''provider'', JStr ''openai''), (''apiKey'', JStr [])]\<rparr>"
        example_platform]
  by simp

text \<open>
  C1 as it is stated fails: a request whose body is not JSON has no \<^verbatim>\<open>apiConfig\<close>
  either, but \<^verbatim>\<open>req.json()\<close> at line 23 throws before the validation of line 26 runs,
  and the reply is 500. The same holds of the body \<^verbatim>\<open>null\<close>, which line 23 cannot take
  apart.
\<close>

theorem C1_unparsed_body_counterexample:
  "POST example_platform (Inl SyntaxError) =
     ([], \<lparr>status = 500, headers = [(''Content-Type'', ''application/json'')],
            body = JsonBody (JObj [(''error'', JStr ''Internal server error'')])\<rparr>)
   \<and> POST example_platform (Inl TypeError) =
     ([], \<lparr>status = 500, headers = [(''Content-Type'', ''application/json'')],
            body = JsonBody (JObj [(''error'', JStr ''Internal server error'')])\<rparr>)"
  by (simp add: POST_def POST_try_def json_response_def)



section \<open>The SiliconFlow branch reads a binding that is not initialised\<close>

lemma POST_try_siliconflow:
  assumes "truthy (field (body_apiConfig b) ''apiKey'')"
    and "field (body_apiConfig b) ''provider'' = JStr ''siliconflow''"
  shows "POST_try pf (Inr b) = ([], Inl ReferenceError)"
proof -
  have "truthy (body_apiConfig b)" using assms(1) by (rule truthy_field_object)
  then show ?thesis using assms
    by (simp add: POST_try_def Let_def siliconflow_case_def)
qed

text \<open>
  C4. For the provider \<^verbatim>\<open>siliconflow\<close> with a key, the branch reads
  \<^verbatim>\<open>enhancedMessages\<close> before its declaration has run: the block throws a
  ReferenceError before any request is sent, and the handler answers 500 with the fixed
  body, whatever the platform, the messages and the diagram.
\<close>

theorem C4_siliconflow_reference_error_500:
  assumes "truthy (field (body_apiConfig b) ''apiKey'')"
    and "field (body_apiConfig b) ''provider'' = JStr ''siliconflow''"
  shows "POST_try pf (Inr b) = ([], Inl ReferenceError)
         \<and> POST pf (Inr b) =
             ([], \<lparr>status = 500, headers = [(''Content-Type'', ''application/json'')],
                   body = JsonBody (JObj [(''error'', JStr ''Internal server error'')])\<rparr>)"
  using POST_try_siliconflow [OF assms, of pf]
  by (simp add: POST_def json_response_def)

theorem C4_siliconflow_reference_error_500_witness:
  "truthy (field (JObj [(''provider'', JStr ''siliconflow''), (''apiKey'', JStr ''k'')]) ''apiKey'')
   \<and> POST example_platform
        (Inr \<lparr>body_messages = Some [JObj [(''role'', JStr ''user'')]], body_xml = JStr [],
               body_apiConfig =
                 JObj [(''provider'', JStr ''siliconflow''), (''apiKey'', JStr ''k'')]\<rparr>) =
       ([], \<lparr>status = 500, headers = [(''Content-Type'', ''application/json'')],
              body = JsonBody (JObj [(''error'', JStr ''Internal server error'')])\<rparr>)"
  using C4_siliconflow_reference_error_500
    [of "\<lparr>body_messages = Some [JObj [(''role'', JStr ''user'')]], body_xml = JStr [],
          body_apiConfig =
            JObj [(''provider'', JStr ''siliconflow''), (''apiKey'', JStr ''k'')]\<rparr>"
        example_platform]
  by simp


section \<open>The messages that are sent\<close>

lemma find_type_objects:
  "\<forall>p \<in> set ps. \<not> nullish p \<Longrightarrow>
   find_type t ps =
     Inr (case find (\<lambda>p. field p ''type'' = JStr t) ps of None \<Rightarrow> JUndef | Some p \<Rightarrow> p)"
  by (induction ps) (auto simp add: member_def)

lemma filter_type_objects:
  "\<forall>p \<in> set ps. \<not> nullish p \<Longrightarrow>
   filter_type t ps = Inr (filter (\<lambda>p. field p ''type'' = JStr t) ps)"
  by (induction ps) (auto simp add: member_def)

lemma field_role_object: "field v k = JStr s \<Longrightarrow> \<exists>kvs. v = JObj kvs"
  by (cases v) auto

lemma map_of_set_field:
  "map_of (set_field kvs k v) k' = (if k' = k then Some v else map_of kvs k')"
  by (induction kvs) auto

lemma opt_member_found:
  assumes "\<forall>p \<in> set ps. \<not> nullish p"
  shows "opt_member (case find P ps of None \<Rightarrow> JUndef | Some p \<Rightarrow> p) k =
           (case find P ps of None \<Rightarrow> JUndef | Some p \<Rightarrow> field p k)"
proof (cases "find P ps")
  case None
  then show ?thesis by (simp add: opt_member_def nullish_def)
next
  case (Some p)
  then have "p \<in> set ps" by (auto simp add: find_Some_iff)
  with assms have "\<not> nullish p" by blast
  with Some show ?thesis by (simp add: opt_member_def)
qed

text \<open>The conversion to string fails with a TypeError only, and never on a string.\<close>

lemma ToString_error:
  shows "ToString v = Inl e \<Longrightarrow> e = TypeError"
    and "ToString_elements vs = Inl e \<Longrightarrow> e = TypeError"
  by (induction v and vs rule: ToString_ToString_elements.induct)
     (auto split: sum.splits if_splits)

lemma ToString_or_empty_string: "ToString (js_or (JStr s) (JStr [])) = Inr s"
  by (simp add: js_or_def)

lemma formattedTextContent_printed:
  assumes "ToString (js_or xml (JStr [])) = Inr xmlPrinted"
    and "ToString lastMessageText = Inr userPrinted"
  shows \<open>formattedTextContent xml lastMessageText =
           Inr ([CHR 0x0A] @ ''Current diagram XML:'' @ [CHR 0x0A]
                @ ''"""xml'' @ [CHR 0x0A] @ xmlPrinted @ [CHR 0x0A]
                @ ''"""'' @ [CHR 0x0A] @ ''User input:'' @ [CHR 0x0A]
                @ ''"""md'' @ [CHR 0x0A] @ userPrinted @ [CHR 0x0A] @ ''"""'')\<close>
  using assms by (simp add: formattedTextContent_def)

lemma assemble_parts:
  assumes ms: "body_messages b = Some ms" "ms \<noteq> []"
    and lastm: "\<not> nullish (last ms)"
    and parts: "field (last ms) ''parts'' = JArr ps
                \<or> (nullish (field (last ms) ''parts'') \<and> ps = [])"
    and objs: "\<forall>p \<in> set ps. \<not> nullish p"
  shows "assemble pf b =
           thenE (formattedTextContent (body_xml b)
                    (js_or (case find (\<lambda>p. field p ''type'' = JStr ''text'') ps of
                              None \<Rightarrow> JUndef | Some p \<Rightarrow> field p ''text'') (JStr [])))
             (\<lambda>text. thenE (convertToModelMessages pf ms)
                (augment text (filter (\<lambda>p. field p ''type'' = JStr ''file'') ps)))"
proof -
  obtain m ms' where m: "ms = m # ms'" using ms(2) by (cases ms) auto
  have lm: "last_message (Some ms) = Inr (last ms)"
    using m by simp
  have mem: "member (last ms) ''parts'' = Inr (field (last ms) ''parts'')"
    using lastm by (simp add: member_def)
  have fnd: "opt_find ''text'' (field (last ms) ''parts'') =
               Inr (case find (\<lambda>p. field p ''type'' = JStr ''text'') ps of
                      None \<Rightarrow> JUndef | Some p \<Rightarrow> p)"
    using parts objs by (auto simp add: find_type_objects nullish_def)
  have flt: "opt_filter_or_empty ''file'' (field (last ms) ''parts'') =
               Inr (filter (\<lambda>p. field p ''type'' = JStr ''file'') ps)"
    using parts objs by (auto simp add: filter_type_objects nullish_def)
  show ?thesis
    unfolding assemble_def
    by (simp add: lm mem fnd flt ms(1) Let_def opt_member_found [OF objs])
qed

lemma assemble_well_formed:
  assumes ms: "body_messages b = Some ms" "ms \<noteq> []"
    and lastm: "\<not> nullish (last ms)"
    and parts: "field (last ms) ''parts'' = JArr ps
                \<or> (nullish (field (last ms) ''parts'') \<and> ps = [])"
    and objs: "\<forall>p \<in> set ps. \<not> nullish p"
    and fmt: "formattedTextContent (body_xml b)
                 (js_or (case find (\<lambda>p. field p ''type'' = JStr ''text'') ps of
                           None \<Rightarrow> JUndef | Some p \<Rightarrow> field p ''text'') (JStr [])) = Inr text"
    and conv: "convertToModelMessages pf ms = Inr mm"
  shows "assemble pf b =
           augment text (filter (\<lambda>p. field p ''type'' = JStr ''file'') ps) mm"
  by (simp add: assemble_parts [OF ms lastm parts objs] fmt conv)

text \<open>When the diagram or the text of the user cannot be printed, nothing is assembled,
  however well formed the messages are.\<close>

lemma assemble_unprintable:
  assumes ms: "body_messages b = Some ms" "ms \<noteq> []"
    and lastm: "\<not> nullish (last ms)"
    and parts: "field (last ms) ''parts'' = JArr ps
                \<or> (nullish (field (last ms) ''parts'') \<and> ps = [])"
    and objs: "\<forall>p \<in> set ps. \<not> nullish p"
    and bad: "ToString (js_or (body_xml b) (JStr [])) = Inl e"
  shows "assemble pf b = Inl TypeError"
proof -
  from bad have "e = TypeError" by (rule ToString_error(1))
  with bad show ?thesis
    by (simp add: assemble_parts [OF ms lastm parts objs] formattedTextContent_def)
qed

lemma augment_user:
  assumes "mm \<noteq> []" and "field (last mm) ''role'' = JStr ''user''"
  shows "augment text fileParts mm =
           Inr (butlast mm
                @ [JObj (set_field (own_properties (last mm)) ''content''
                           (JArr (JObj [(''type'', JStr ''text''), (''text'', JStr text)]
                                  # map image_part fileParts)))])"
proof -
  obtain kvs where "last mm = JObj kvs" using assms(2) field_role_object by blast
  then show ?thesis using assms
    by (cases mm) (auto simp add: augment_def member_def nullish_def Let_def)
qed

lemma augment_returns:
  assumes "mm \<noteq> [] \<longrightarrow> \<not> nullish (last mm)"
  shows "\<exists>enhancedMessages. augment text fileParts mm = Inr enhancedMessages"
  using assms by (cases mm) (auto simp add: augment_def member_def Let_def)


text \<open>
  C7, amended. Let the message list be non-empty with a last message whose \<^verbatim>\<open>parts\<close> are
  absent or a list \<open>ps\<close> of entries none of which is \<^verbatim>\<open>null\<close>, let the diagram and the
  text of the user be values that a template literal prints (every string is), and let
  the conversion of the chat library give the list \<open>mm\<close>, non-empty, whose last message
  has the role \<^verbatim>\<open>user\<close>. Then the list that is assembled, and sent with the streaming
  call, is \<open>mm\<close> with its last message replaced: every message before the last is the one
  of \<open>mm\<close>, the last keeps every property but \<^verbatim>\<open>content\<close>, and its new content is one
  text part followed by one image entry for each file part of \<open>ps\<close>, in their order. The
  text part holds the diagram and the text of the user as printed, each between its
  fences; a string is printed as it is.
\<close>

theorem C7_last_user_turn_rewritten:
  assumes ms: "body_messages b = Some ms" "ms \<noteq> []"
    and lastm: "\<not> nullish (last ms)"
    and parts: "field (last ms) ''parts'' = JArr ps
                \<or> (nullish (field (last ms) ''parts'') \<and> ps = [])"
    and objs: "\<forall>p \<in> set ps. \<not> nullish p"
    and xml: "ToString (js_or (body_xml b) (JStr [])) = Inr xmlPrinted"
    and usr: "ToString
                (js_or (case find (\<lambda>p. field p ''type'' = JStr ''text'') ps of
                          None \<Rightarrow> JUndef | Some p \<Rightarrow> field p ''text'') (JStr [])) =
              Inr userPrinted"
    and conv: "convertToModelMessages pf ms = Inr mm"
    and user: "mm \<noteq> []" "field (last mm) ''role'' = JStr ''user''"
  defines "formatted \<equiv>
             [CHR 0x0A] @ ''Current diagram XML:'' @ [CHR 0x0A]
             @ [CHR 0x22, CHR 0x22, CHR 0x22] @ ''xml'' @ [CHR 0x0A]
             @ xmlPrinted @ [CHR 0x0A] @ [CHR 0x22, CHR 0x22, CHR 0x22] @ [CHR 0x0A]
             @ ''User input:'' @ [CHR 0x0A]
             @ [CHR 0x22, CHR 0x22, CHR 0x22] @ ''md'' @ [CHR 0x0A]
             @ userPrinted @ [CHR 0x0A] @ [CHR 0x22, CHR 0x22, CHR 0x22]"
  defines "contentParts \<equiv>
             JObj [(''type'', JStr ''text''), (''text'', JStr formatted)]
             # map image_part (filter (\<lambda>p. field p ''type'' = JStr ''file'') ps)"
  defines "newLast \<equiv> JObj (set_field (own_properties (last mm)) ''content'' (JArr contentParts))"
  shows "assemble pf b = Inr (butlast mm @ [newLast])
         \<and> fst (shared_path pf b selectedModel) =
             [StreamText (streamText_request selectedModel (butlast mm @ [newLast]))]
         \<and> st_messages (streamText_request selectedModel (butlast mm @ [newLast])) =
             butlast mm @ [newLast]
         \<and> field newLast ''content'' = JArr contentParts
         \<and> (\<forall>k. k \<noteq> ''content'' \<longrightarrow> field newLast k = field (last mm) k)
         \<and> (\<forall>s. ToString (JStr s) = Inr s \<and> ToString (js_or (JStr s) (JStr [])) = Inr s)"
proof -
  obtain kvs where kvs: "last mm = JObj kvs" using user(2) field_role_object by blast
  have f: "formattedTextContent (body_xml b)
             (js_or (case find (\<lambda>p. field p ''type'' = JStr ''text'') ps of
                       None \<Rightarrow> JUndef | Some p \<Rightarrow> field p ''text'') (JStr [])) =
           Inr formatted"
    using formattedTextContent_printed [OF xml usr] by (simp add: formatted_def)
  from assemble_well_formed [OF ms lastm parts objs f conv]
  have a: "assemble pf b = Inr (butlast mm @ [newLast])"
    by (simp add: augment_user [OF user] newLast_def contentParts_def)
  have c: "field newLast ''content'' = JArr contentParts"
    by (simp add: newLast_def kvs map_of_set_field)
  have o: "\<forall>k. k \<noteq> ''content'' \<longrightarrow> field newLast k = field (last mm) k"
    by (simp add: newLast_def kvs map_of_set_field)
  have s: "fst (shared_path pf b selectedModel) =
             [StreamText (streamText_request selectedModel (butlast mm @ [newLast]))]"
    by (simp add: shared_path_def a Let_def)
  have m: "st_messages (streamText_request selectedModel (butlast mm @ [newLast])) =
             butlast mm @ [newLast]"
    by (simp add: streamText_request_def)
  show ?thesis using a c o s m by (simp add: ToString_or_empty_string)
qed

theorem C7_last_user_turn_rewritten_witness:
  "ToString (js_or (JStr ''<root/>'') (JStr [])) = Inr ''<root/>''
   \<and> ToString (JStr ''add a node'') = Inr ''add a node''
   \<and> assemble example_platform example_body =
     Inr [JObj [(''role'', JStr ''assistant''), (''parts'', JArr [])],
          JObj [(''role'', JStr ''user''),
                (''parts'',
                 JArr [JObj [(''type'', JStr ''text''), (''text'', JStr ''add a node'')],
                       JObj [(''type'', JStr ''file''), (''url'', JStr ''data:x''),
                             (''mediaType'', JStr ''image/png'')]]),
                (''content'',
                 JArr [JObj [(''type'', JStr ''text''),
                             (''text'',
                              JStr ([CHR 0x0A] @ ''Current diagram XML:'' @ [CHR 0x0A]
                                    @ [CHR 0x22, CHR 0x22, CHR 0x22] @ ''xml'' @ [CHR 0x0A]
                                    @ ''<root/>'' @ [CHR 0x0A]
                                    @ [CHR 0x22, CHR 0x22, CHR 0x22] @ [CHR 0x0A]
                                    @ ''User input:'' @ [CHR 0x0A]
                                    @ [CHR 0x22, CHR 0x22, CHR 0x22] @ ''md'' @ [CHR 0x0A]
                                    @ ''add a node'' @ [CHR 0x0A]
                                    @ [CHR 0x22, CHR 0x22, CHR 0x22]))],
                       JObj [(''type'', JStr ''image''), (''image'', JStr ''data:x''),
                             (''mimeType'', JStr ''image/png'')]])]]"
  using C7_last_user_turn_rewritten
    [where b = example_body
       and ms = "[JObj [(''role'', JStr ''assistant''), (''parts'', JArr [])],
                  JObj [(''role'', JStr ''user''),
                        (''parts'',
                         JArr [JObj [(''type'', JStr ''text''), (''text'', JStr ''add a node'')],
                               JObj [(''type'', JStr ''file''), (''url'', JStr ''data:x''),
                                     (''mediaType'', JStr ''image/png'')]])]]"
       and ps = "[JObj [(''type'', JStr ''text''), (''text'', JStr ''add a node'')],
                  JObj [(''type'', JStr ''file''), (''url'', JStr ''data:x''),
                        (''mediaType'', JStr ''image/png'')]]"
       and pf = example_platform
       and mm = "[JObj [(''role'', JStr ''assistant''), (''parts'', JArr [])],
                  JObj [(''role'', JStr ''user''),
                        (''parts'',
                         JArr [JObj [(''type'', JStr ''text''), (''text'', JStr ''add a node'')],
                               JObj [(''type'', JStr ''file''), (''url'', JStr ''data:x''),
                                     (''mediaType'', JStr ''image/png'')]])]]"
       and xmlPrinted = "''<root/>''" and userPrinted = "''add a node''"]
  by (simp add: example_body_def example_platform_def nullish_def js_or_def image_part_def)

text \<open>
  C7 as it is stated fails: the message list of \<open>unprintable_xml_body\<close> is not empty and
  its last turn is a user turn, but the diagram sent with it is an object with a
  property \<^verbatim>\<open>toString\<close>. The template literal of lines 190 to 198 throws on it: no list
  is assembled, nothing is sent, and the reply is 500.
\<close>

theorem C7_unprintable_diagram_counterexample:
  "map_option (\<lambda>ms. field (last ms) ''role'') (body_messages unprintable_xml_body) =
     Some (JStr ''user'')
   \<and> body_xml unprintable_xml_body = JObj [(''toString'', JNum 1)]
   \<and> assemble example_platform unprintable_xml_body = Inl TypeError
   \<and> POST example_platform (Inr unprintable_xml_body) =
       ([], \<lparr>status = 500, headers = [(''Content-Type'', ''application/json'')],
              body = JsonBody (JObj [(''error'', JStr ''Internal server error'')])\<rparr>)"
proof -
  have a: "assemble example_platform unprintable_xml_body = Inl TypeError"
    by (simp add: assemble_def unprintable_xml_body_def example_body_def member_def
          nullish_def opt_member_def js_or_def formattedTextContent_def Let_def)
  have p: "POST_try example_platform (Inr unprintable_xml_body) = ([], Inl TypeError)"
    by (simp add: POST_try_def Let_def shared_path_def a)
       (simp add: unprintable_xml_body_def example_body_def)
  show ?thesis
    using a p
    by (simp add: POST_def json_response_def)
       (simp add: unprintable_xml_body_def example_body_def)
qed

text \<open>
  C8, amended. For the providers \<^verbatim>\<open>openai\<close>, \<^verbatim>\<open>openrouter\<close> and \<^verbatim>\<open>google\<close>, with a key
  and a request that is well formed (a non-empty message list whose last message has
  \<^verbatim>\<open>parts\<close> that are absent or a list of entries none of which is \<^verbatim>\<open>null\<close>, a diagram
  and a text of the user that a template literal prints, a conversion that succeeds), the
  handler makes exactly one call, a streaming chat completion, with the fixed system
  prompt, the binding of the provider for the configured model or the default of the
  provider, the assembled messages, the two tools \<^verbatim>\<open>display_diagram\<close> and
  \<^verbatim>\<open>edit_diagram\<close> with their parameter schemas, and temperature 0.
\<close>

theorem C8_streaming_call:
  assumes key: "truthy (field (body_apiConfig b) ''apiKey'')"
    and prov: "field (body_apiConfig b) ''provider'' \<in>
                 {JStr ''openai'', JStr ''openrouter'', JStr ''google''}"
    and ms: "body_messages b = Some ms" "ms \<noteq> []"
    and lastm: "\<not> nullish (last ms)"
    and parts: "field (last ms) ''parts'' = JArr ps
                \<or> (nullish (field (last ms) ''parts'') \<and> ps = [])"
    and objs: "\<forall>p \<in> set ps. \<not> nullish p"
    and xml: "ToString (js_or (body_xml b) (JStr [])) = Inr xmlPrinted"
    and usr: "ToString
                (js_or (case find (\<lambda>p. field p ''type'' = JStr ''text'') ps of
                          None \<Rightarrow> JUndef | Some p \<Rightarrow> field p ''text'') (JStr [])) =
              Inr userPrinted"
    and conv: "convertToModelMessages pf ms = Inr mm"
    and lastmm: "mm \<noteq> [] \<longrightarrow> \<not> nullish (last mm)"
  defines "provider \<equiv> field (body_apiConfig b) ''provider''"
  defines "apiKey \<equiv> field (body_apiConfig b) ''apiKey''"
  defines "model \<equiv> field (body_apiConfig b) ''model''"
  shows "(\<exists>enhancedMessages.
            assemble pf b = Inr enhancedMessages
            \<and> fst (POST pf (Inr b)) =
                [StreamText
                   \<lparr>st_system = systemMessage,
                    st_model =
                      (if provider = JStr ''openai'' then
                         OpenAI_model (js_or model (JStr ''gpt-4''))
                       else if provider = JStr ''openrouter'' then
                         OpenRouter_model apiKey (js_or model (JStr ''openai/gpt-4o''))
                       else Google_model apiKey (js_or model (JStr ''gemini-1.5-pro''))),
                    st_messages = enhancedMessages,
                    st_tools =
                      [(''display_diagram'', display_diagram),
                       (''edit_diagram'', edit_diagram)],
                    st_temperature = 0\<rparr>])
         \<and> (model = JUndef \<longrightarrow> (\<forall>d. js_or model d = d))
         \<and> inputSchema display_diagram =
             z_object [(''xml'', describe z_string ''XML string to be displayed on draw.io'')]
         \<and> inputSchema edit_diagram =
             z_object
               [(''edits'',
                 describe
                   (z_array
                     (z_object
                       [(''search'',
                         describe z_string
                           ''Exact lines to search for (including whitespace and indentation)''),
                        (''replace'', describe z_string ''Replacement lines'')]))
                   ''Array of search/replace pairs to apply sequentially'')]"
proof -
  have cfg: "truthy (body_apiConfig b)" using key by (rule truthy_field_object)
  have tp: "truthy (field (body_apiConfig b) ''provider'')" using prov by auto
  note f = formattedTextContent_printed [OF xml usr]
  from assemble_well_formed [OF ms lastm parts objs f conv] augment_returns [OF lastmm]
  obtain enhancedMessages where a: "assemble pf b = Inr enhancedMessages" by metis
  have "fst (POST pf (Inr b)) =
          [StreamText
             \<lparr>st_system = systemMessage,
              st_model =
                (if provider = JStr ''openai'' then
                   OpenAI_model (js_or model (JStr ''gpt-4''))
                 else if provider = JStr ''openrouter'' then
                   OpenRouter_model apiKey (js_or model (JStr ''openai/gpt-4o''))
                 else Google_model apiKey (js_or model (JStr ''gemini-1.5-pro''))),
              st_messages = enhancedMessages,
              st_tools =
                [(''display_diagram'', display_diagram), (''edit_diagram'', edit_diagram)],
              st_temperature = 0\<rparr>]"
    using cfg key tp prov
    by (auto simp add: POST_def POST_try_def shared_path_def a Let_def streamText_request_def
          provider_def apiKey_def model_def split: prod.splits sum.splits)
  with a show ?thesis
    by (simp add: js_or_def display_diagram_def edit_diagram_def)
qed

lemma assemble_example:
  "assemble example_platform example_body =
     Inr [JObj [(''role'', JStr ''assistant''), (''parts'', JArr [])],
          JObj [(''role'', JStr ''user''),
                (''parts'',
                 JArr [JObj [(''type'', JStr ''text''), (''text'', JStr ''add a node'')],
                       JObj [(''type'', JStr ''file''), (''url'', JStr ''data:x''),
                             (''mediaType'', JStr ''image/png'')]]),
                (''content'',
                 JArr [JObj [(''type'', JStr ''text''),
                             (''text'',
                              JStr ([CHR 0x0A] @ ''Current diagram XML:'' @ [CHR 0x0A]
                                    @ [CHR 0x22, CHR 0x22, CHR 0x22] @ ''xml'' @ [CHR 0x0A]
                                    @ ''<root/>'' @ [CHR 0x0A]
                                    @ [CHR 0x22, CHR 0x22, CHR 0x22] @ [CHR 0x0A]
                                    @ ''User input:'' @ [CHR 0x0A]
                                    @ [CHR 0x22, CHR 0x22, CHR 0x22] @ ''md'' @ [CHR 0x0A]
                                    @ ''add a node'' @ [CHR 0x0A]
                                    @ [CHR 0x22, CHR 0x22, CHR 0x22]))],
                       JObj [(''type'', JStr ''image''), (''image'', JStr ''data:x''),
                             (''mimeType'', JStr ''image/png'')]])]]"
  by (simp add: assemble_def example_body_def example_platform_def member_def nullish_def
        opt_member_def js_or_def augment_def image_part_def formattedTextContent_def Let_def)

theorem C8_streaming_call_witness:
  "fst (POST example_platform (Inr example_body)) =
     [StreamText
        \<lparr>st_system = systemMessage,
         st_model = Google_model (JStr ''k'') (JStr ''gemini-1.5-pro''),
         st_messages =
           [JObj [(''role'', JStr ''assistant''), (''parts'', JArr [])],
            JObj [(''role'', JStr ''user''),
                  (''parts'',
                   JArr [JObj [(''type'', JStr ''text''), (''text'', JStr ''add a node'')],
                         JObj [(''type'', JStr ''file''), (''url'', JStr ''data:x''),
                               (''mediaType'', JStr ''image/png'')]]),
                  (''content'',
                   JArr [JObj [(''type'', JStr ''text''),
                               (''text'',
                                JStr ([CHR 0x0A] @ ''Current diagram XML:'' @ [CHR 0x0A]
                                      @ [CHR 0x22, CHR 0x22, CHR 0x22] @ ''xml'' @ [CHR 0x0A]
                                      @ ''<root/>'' @ [CHR 0x0A]
                                      @ [CHR 0x22, CHR 0x22, CHR 0x22] @ [CHR 0x0A]
                                      @ ''User input:'' @ [CHR 0x0A]
                                      @ [CHR 0x22, CHR 0x22, CHR 0x22] @ ''md'' @ [CHR 0x0A]
                                      @ ''add a node'' @ [CHR 0x0A]
                                      @ [CHR 0x22, CHR 0x22, CHR 0x22]))],
                         JObj [(''type'', JStr ''image''), (''image'', JStr ''data:x''),
                               (''mimeType'', JStr ''image/png'')]])]],
         st_tools = [(''display_diagram'', display_diagram), (''edit_diagram'', edit_diagram)],
         st_temperature = 0\<rparr>]"
  using C8_streaming_call
    [where b = example_body
       and ms = "[JObj [(''role'', JStr ''assistant''), (''parts'', JArr [])],
                  JObj [(''role'', JStr ''user''),
                        (''parts'',
                         JArr [JObj [(''type'', JStr ''text''), (''text'', JStr ''add a node'')],
                               JObj [(''type'', JStr ''file''), (''url'', JStr ''data:x''),
                                     (''mediaType'', JStr ''image/png'')]])]]"
       and ps = "[JObj [(''type'', JStr ''text''), (''text'', JStr ''add a node'')],
                  JObj [(''type'', JStr ''file''), (''url'', JStr ''data:x''),
                        (''mediaType'', JStr ''image/png'')]]"
       and pf = example_platform
       and mm = "[JObj [(''role'', JStr ''assistant''), (''parts'', JArr [])],
                  JObj [(''role'', JStr ''user''),
                        (''parts'',
                         JArr [JObj [(''type'', JStr ''text''), (''text'', JStr ''add a node'')],
                               JObj [(''type'', JStr ''file''), (''url'', JStr ''data:x''),
                                     (''mediaType'', JStr ''image/png'')]])]]"
       and xmlPrinted = "''<root/>''" and userPrinted = "''add a node''"]
    assemble_example
  by (simp add: example_body_def example_platform_def nullish_def js_or_def)

text \<open>
  C8 as it is stated fails: \<open>empty_messages_body\<close> names the provider \<^verbatim>\<open>openai\<close> and has a
  key, but its message list is empty. Line 185 reads \<^verbatim>\<open>parts\<close> of \<^verbatim>\<open>undefined\<close> and
  throws: no call is made, and the reply is 500.
\<close>

theorem C8_empty_messages_counterexample:
  "field (body_apiConfig empty_messages_body) ''provider'' = JStr ''openai''
   \<and> truthy (field (body_apiConfig empty_messages_body) ''apiKey'')
   \<and> body_messages empty_messages_body = Some []
   \<and> POST example_platform (Inr empty_messages_body) =
       ([], \<lparr>status = 500, headers = [(''Content-Type'', ''application/json'')],
              body = JsonBody (JObj [(''error'', JStr ''Internal server error'')])\<rparr>)"
  by (simp add: POST_def POST_try_def shared_path_def assemble_def empty_messages_body_def
        member_def nullish_def json_response_def Let_def)


section \<open>What the SiliconFlow branch was written to do\<close>

lemma match_fenced_root:
  "match_xml_block fenced_content = Some ''<root/>'' \<and> fenced_content \<noteq> []"
  by code_simp

lemma siliconflow_reply_fenced:
  "siliconflow_reply fenced_reply =
     Inr (sse_response (JObj [(''type'', JStr ''text''), (''text'', JStr ''<root/>''),
                              (''tool'', JStr ''display_diagram'')]))"
  using match_fenced_root
  by (simp add: siliconflow_reply_def fenced_reply_def ok_def member_def nullish_def
        opt_member_def js_or_def Let_def)

lemma siliconflow_reply_bad_key:
  "siliconflow_reply bad_key_reply =
     Inr (json_response
            (JObj [(''error'', JStr (msg_siliconflow_error @ ''bad key''))]) 401)"
  by (simp add: siliconflow_reply_def bad_key_reply_def ok_def member_def nullish_def
        opt_member_def js_or_def Response_json_def)

lemma siliconflow_reply_not_ok:
  assumes "\<not> ok r" and "json r = Inr errorData" and "\<not> nullish errorData"
    and "ToString (js_or (opt_member (field errorData ''error'') ''message'')
                         (JStr (statusText r))) = Inr message"
    and "200 \<le> upstream_status r" and "upstream_status r \<le> 599"
  shows "siliconflow_reply r =
           Inr (json_response
                  (JObj [(''error'', JStr (msg_siliconflow_error @ message))])
                  (upstream_status r))"
  using assms by (simp add: siliconflow_reply_def member_def Response_json_def)

lemma siliconflow_reply_ok:
  assumes "ok r" and "json r = Inr result" and "\<not> nullish result"
    and "js_or (opt_member (opt_member (opt_index0 (field result ''choices'')) ''message'')
                  ''content'') (JStr []) = JStr content"
  shows "siliconflow_reply r =
           Inr (sse_response
                  (case match_xml_block content of
                     Some xml \<Rightarrow>
                       JObj [(''type'', JStr ''text''), (''text'', JStr xml),
                             (''tool'', JStr ''display_diagram'')]
                   | None \<Rightarrow> JObj [(''type'', JStr ''text''), (''text'', JStr content)]))"
  using assms by (simp add: siliconflow_reply_def member_def Let_def split: option.splits)

lemma siliconflow_case_initialized:
  assumes "\<forall>m \<in> set msgs. \<not> nullish m" and "ToString apiKey = Inr key"
  shows "\<exists>sfm. mapE siliconflow_message msgs = Inr sfm
           \<and> siliconflow_case pf apiKey model (Initialized msgs) =
               ([Fetch (siliconflow_request key model sfm)],
                thenE (fetch pf (siliconflow_request key model sfm)) siliconflow_reply)"
proof -
  have "\<exists>sfm. mapE siliconflow_message msgs = Inr sfm"
    using assms(1) by (induction msgs) (auto simp add: siliconflow_message_def member_def)
  then show ?thesis using assms(2) by (auto simp add: siliconflow_case_def Let_def)
qed

text \<open>
  C3 states that, for the provider \<^verbatim>\<open>siliconflow\<close>, a 2xx reply of the vendor whose
  completion holds a block fenced as \<^verbatim>\<open>xml\<close> is answered with status 200 and two
  server-sent-event frames. The lines that build this answer are there
  (\<open>siliconflow_reply_ok\<close>), but the handler never reaches them: for every platform,
  so whatever the vendor would answer, the reply has status 500 and is not a reply of
  event frames.
\<close>

theorem C3_siliconflow_never_streams:
  assumes "truthy (field (body_apiConfig b) ''apiKey'')"
    and "field (body_apiConfig b) ''provider'' = JStr ''siliconflow''"
  shows "status (snd (POST pf (Inr b))) = 500
         \<and> (\<forall>payload. snd (POST pf (Inr b)) \<noteq> sse_response payload)"
  using POST_try_siliconflow [OF assms, of pf]
  by (simp add: POST_def json_response_def sse_response_def)

theorem C3_siliconflow_never_streams_witness:
  "siliconflow_reply fenced_reply =
     Inr (sse_response (JObj [(''type'', JStr ''text''), (''text'', JStr ''<root/>''),
                              (''tool'', JStr ''display_diagram'')]))
   \<and> status (snd (POST fenced_platform (Inr siliconflow_body))) = 500
   \<and> snd (POST fenced_platform (Inr siliconflow_body)) \<noteq>
       sse_response (JObj [(''type'', JStr ''text''), (''text'', JStr ''<root/>''),
                           (''tool'', JStr ''display_diagram'')])"
  using C3_siliconflow_never_streams [of siliconflow_body fenced_platform]
    siliconflow_reply_fenced
  by (simp add: siliconflow_body_def example_body_def)

text \<open>
  C5 states that a reply of the vendor that is not 2xx is answered with the status of the
  vendor and its error message. The lines that do it are there
  (\<open>siliconflow_reply_not_ok\<close>), but are never reached: when the vendor would answer
  with a status that is not 2xx, other than 500 itself, the status of the answer differs
  from it, and the body is the fixed one.
\<close>

theorem C5_siliconflow_upstream_status_lost:
  assumes "truthy (field (body_apiConfig b) ''apiKey'')"
    and "field (body_apiConfig b) ''provider'' = JStr ''siliconflow''"
    and "fetch pf rq = Inr r" and "\<not> ok r" and "upstream_status r \<noteq> 500"
  shows "status (snd (POST pf (Inr b))) \<noteq> upstream_status r
         \<and> body (snd (POST pf (Inr b))) =
             JsonBody (JObj [(''error'', JStr ''Internal server error'')])"
  using POST_try_siliconflow [OF assms(1,2), of pf] assms(5)
  by (simp add: POST_def json_response_def)

theorem C5_siliconflow_upstream_status_lost_witness:
  "siliconflow_reply bad_key_reply =
     Inr (json_response (JObj [(''error'', JStr (msg_siliconflow_error @ ''bad key''))]) 401)
   \<and> fetch bad_key_platform (siliconflow_request ''k'' JUndef []) = Inr bad_key_reply
   \<and> upstream_status bad_key_reply = 401
   \<and> status (snd (POST bad_key_platform (Inr siliconflow_body))) \<noteq> 401
   \<and> body (snd (POST bad_key_platform (Inr siliconflow_body))) =
       JsonBody (JObj [(''error'', JStr ''Internal server error'')])"
  using C5_siliconflow_upstream_status_lost
          [of siliconflow_body bad_key_platform "siliconflow_request ''k'' JUndef []"
              bad_key_reply]
    siliconflow_reply_bad_key
  by (simp add: siliconflow_body_def example_body_def bad_key_reply_def bad_key_platform_def
        ok_def)

text \<open>The handler has one call of \<^verbatim>\<open>fetch\<close>, in the SiliconFlow branch; no request
  of any provider makes it run.\<close>

lemma shared_path_no_fetch: "Fetch rq \<notin> set (fst (shared_path pf b m))"
  by (simp add: shared_path_def Let_def split: sum.splits)

lemma POST_never_fetches: "Fetch rq \<notin> set (fst (POST pf req))"
proof (cases req)
  case (Inl e)
  then show ?thesis by (simp add: POST_def POST_try_def)
next
  case (Inr b)
  have "Fetch rq \<notin> set (fst (POST_try pf (Inr b)))"
    by (simp add: POST_try_def Let_def siliconflow_case_def shared_path_no_fetch)
  then show ?thesis using Inr
    by (cases "POST_try pf (Inr b)") (auto simp add: POST_def split: sum.splits)
qed

text \<open>
  C6 states that the handler sends exactly one POST to the endpoint of SiliconFlow. The
  lines that build and send it are there (\<open>siliconflow_case_initialized\<close>,
  \<open>siliconflow_request_example\<close>), but with the binding not initialised nothing is sent.
\<close>

theorem C6_siliconflow_no_request:
  assumes "truthy (field (body_apiConfig b) ''apiKey'')"
    and "field (body_apiConfig b) ''provider'' = JStr ''siliconflow''"
  shows "fst (POST pf (Inr b)) = [] \<and> (\<forall>rq. Fetch rq \<notin> set (fst (POST pf (Inr b))))"
  using POST_try_siliconflow [OF assms, of pf]
  by (simp add: POST_def)

lemma siliconflow_request_example:
  "mapE siliconflow_message [JObj [(''role'', JStr ''user''), (''content'', JStr ''hi'')]] =
     Inr [JObj [(''role'', JStr ''user''), (''content'', JStr ''hi'')]]
   \<and> siliconflow_case fenced_platform (JStr ''k'') JUndef
        (Initialized [JObj [(''role'', JStr ''user''), (''content'', JStr ''hi'')]]) =
       ([Fetch \<lparr>url = ''https://api.siliconflow.cn/v1/chat/completions'',
                http_method = ''POST'',
                request_headers =
                  [(''Authorization'', ''Bearer k''), (''Content-Type'', ''application/json'')],
                request_body =
                  serialize
                    (JObj [(''model'', JStr ''Qwen/Qwen2.5-72B-Instruct''),
                           (''messages'',
                            JArr [JObj [(''role'', JStr ''user''), (''content'', JStr ''hi'')]]),
                           (''temperature'', JNum 0)])\<rparr>],
        Inr (sse_response (JObj [(''type'', JStr ''text''), (''text'', JStr ''<root/>''),
                                 (''tool'', JStr ''display_diagram'')])))"
  by (simp add: siliconflow_case_def siliconflow_message_def member_def nullish_def
        siliconflow_request_def js_or_def fenced_platform_def example_platform_def
        siliconflow_reply_fenced Let_def)

theorem C6_siliconflow_no_request_witness:
  "fst (POST fenced_platform (Inr siliconflow_body)) = []
   \<and> Fetch (siliconflow_request ''k'' JUndef []) \<notin>
       set (fst (POST fenced_platform (Inr siliconflow_body)))"
  using C6_siliconflow_no_request [of siliconflow_body fenced_platform]
  by (simp add: siliconflow_body_def example_body_def)

section \<open>Errors\<close>

text \<open>
  C9. An exception that leaves the \<^verbatim>\<open>try\<close> block becomes the reply 500 with the fixed
  body, and a reply that the block returns (the 400 replies among them) is passed on as
  it is. The error callback of the stream gives the message of an \<^verbatim>\<open>Error\<close>, a string
  itself, \<^verbatim>\<open>unknown error\<close> for \<^verbatim>\<open>null\<close> and \<^verbatim>\<open>undefined\<close>, and the JSON text of any
  other value.
\<close>

theorem C9_error_surfacing:
  "(POST_try pf r = (calls, Inl e) \<longrightarrow>
      POST pf r =
        (calls, \<lparr>status = 500, headers = [(''Content-Type'', ''application/json'')],
                  body = JsonBody (JObj [(''error'', JStr ''Internal server error'')])\<rparr>))
   \<and> (POST_try pf r = (calls, Inr resp) \<longrightarrow> POST pf r = (calls, resp))
   \<and> errorHandler (ErrorObject m) = Some m
   \<and> errorHandler (Value (JStr s)) = Some s
   \<and> errorHandler (Value JNull) = Some ''unknown error''
   \<and> errorHandler (Value JUndef) = Some ''unknown error''
   \<and> (v \<noteq> JNull \<and> v \<noteq> JUndef \<and> (\<forall>s. v \<noteq> JStr s) \<longrightarrow>
        errorHandler (Value v) = JSON_stringify v \<and> JSON_stringify v = Some (serialize v))"
  by (cases v) (simp_all add: POST_def json_response_def JSON_stringify_def)

theorem C9_error_surfacing_witness:
  "POST_try example_platform (Inl SyntaxError) = ([], Inl SyntaxError)
   \<and> POST example_platform (Inl SyntaxError) =
        ([], \<lparr>status = 500, headers = [(''Content-Type'', ''application/json'')],
               body = JsonBody (JObj [(''error'', JStr ''Internal server error'')])\<rparr>)
   \<and> errorHandler (ErrorObject ''boom'') = Some ''boom''
   \<and> errorHandler (Value (JStr ''quota'')) = Some ''quota''
   \<and> errorHandler (Value (JObj [(''code'', JNum 7)])) =
        Some (''{'' @ [CHR 0x22] @ ''code'' @ [CHR 0x22] @ '':7}'')"
proof -
  have t: "POST_try example_platform (Inl SyntaxError) = ([], Inl SyntaxError)"
    by (simp add: POST_try_def)
  have s: "serialize (JObj [(''code'', JNum 7)]) =
             ''{'' @ [CHR 0x22] @ ''code'' @ [CHR 0x22] @ '':7}''"
    by code_simp
  show ?thesis
    using t s C9_error_surfacing [of example_platform "Inl SyntaxError" "[]" SyntaxError
        undefined "''boom''" "''quota''" "JObj [(''code'', JNum 7)]"]
    by simp
qed

section \<open>Saving and loading the configuration\<close>

lemma serialize_object_not_empty: "serialize (JObj kvs) \<noteq> []"
  by simp

lemma parse_saved_object:
  assumes "JSON_parse s = Inr (JObj kvs)"
  shows "parse_saved JSON_parse s =
           Inr (if truthy (field (JObj kvs) ''model'') then JObj kvs
                else case find (\<lambda>p. JStr (provider_id p) = field (JObj kvs) ''provider'')
                            providers of
                       Some p \<Rightarrow> JObj (set_field kvs ''model'' (JStr (defaultModel p)))
                     | None \<Rightarrow> JObj kvs)"
  using assms
  by (simp add: parse_saved_def member_def nullish_def split: option.splits)

lemma parse_saved_malformed:
  "JSON_parse s = Inl e \<Longrightarrow> parse_saved JSON_parse s = Inl e"
  by (simp add: parse_saved_def)

text \<open>
  C10, amended. Let \<open>cfg\<close> be a configuration object, and let \<^verbatim>\<open>JSON.parse\<close> give back,
  from the text that \<^verbatim>\<open>JSON.stringify\<close> writes for it, an object with the same fields (a
  field whose value is \<^verbatim>\<open>undefined\<close> is not written, and is absent afterwards). After
  saving \<open>cfg\<close> and loading, the configuration equals \<open>cfg\<close> in every field other than
  \<^verbatim>\<open>model\<close>; the model is the one of \<open>cfg\<close> when that is not empty, and when it is
  absent or empty it is the default of the provider, if the provider is one of the table
  (otherwise it is left as it is). Loading is total: a stored text that does not parse
  leaves the default configuration (openai, empty key, gpt-4) and is logged.
\<close>

theorem C10_save_then_reload:
  fixes st :: dialog_state and localStorage :: storage
  assumes rt: "JSON_parse (serialize (JObj kvs)) = Inr (JObj kvs')"
    and same: "\<forall>k. field (JObj kvs') k = field (JObj kvs) k"
  defines "cfg \<equiv> JObj kvs"
  defines "loaded \<equiv> config (reload JSON_parse (handleSave (st\<lparr>config := cfg\<rparr>) localStorage))"
  defines "declared \<equiv> find (\<lambda>p. JStr (provider_id p) = field cfg ''provider'') providers"
  shows "(\<forall>k. k \<noteq> ''model'' \<longrightarrow> field loaded k = field cfg k)
         \<and> (truthy (field cfg ''model'') \<longrightarrow> field loaded ''model'' = field cfg ''model'')
         \<and> (\<forall>p. \<not> truthy (field cfg ''model'') \<and> declared = Some p \<longrightarrow>
                field loaded ''model'' = JStr (defaultModel p))
         \<and> (\<not> truthy (field cfg ''model'') \<and> declared = None \<longrightarrow>
                field loaded ''model'' = field cfg ''model'')
         \<and> (\<forall>s e. s \<noteq> [] \<and> JSON_parse s = Inl e \<longrightarrow>
                reload JSON_parse (localStorage(''ai-draw-config'' \<mapsto> s)) =
                  \<lparr>config = JObj [(''provider'', JStr ''openai''), (''apiKey'', JStr []),
                                  (''model'', JStr ''gpt-4'')],
                   console = [''Failed to parse saved config:'']\<rparr>)"
proof -
  have m: "field (JObj kvs') ''model'' = field cfg ''model''"
    and p: "field (JObj kvs') ''provider'' = field cfg ''provider''"
    using same by (simp_all add: cfg_def)
  have l: "loaded =
           (if truthy (field cfg ''model'') then JObj kvs'
            else case declared of
                   Some p \<Rightarrow> JObj (set_field kvs' ''model'' (JStr (defaultModel p)))
                 | None \<Rightarrow> JObj kvs')"
  proof -
    note ps = parse_saved_object [of JSON_parse "serialize (JObj kvs)" kvs', OF rt]
    have ne: "serialize (JObj kvs) \<noteq> []" by (rule serialize_object_not_empty)
    have "loaded =
           (if truthy (field (JObj kvs') ''model'') then JObj kvs'
            else case find (\<lambda>p. JStr (provider_id p) = field (JObj kvs') ''provider'')
                        providers of
                   Some p \<Rightarrow> JObj (set_field kvs' ''model'' (JStr (defaultModel p)))
                 | None \<Rightarrow> JObj kvs')"
      unfolding loaded_def cfg_def
      by (simp add: reload_def load_def handleSave_def JSON_stringify_def ps ne
            del: serialize.simps field.simps)
    then show ?thesis unfolding m p declared_def .
  qed
  have o: "\<forall>k. k \<noteq> ''model'' \<longrightarrow> field loaded k = field cfg k"
  proof (intro allI impI)
    fix k :: string
    assume k: "k \<noteq> ''model''"
    have "field loaded k = field (JObj kvs') k"
      unfolding l using k by (simp add: map_of_set_field split: option.splits)
    also have "\<dots> = field cfg k" using same by (simp add: cfg_def)
    finally show "field loaded k = field cfg k" .
  qed
  have t: "truthy (field cfg ''model'') \<longrightarrow> field loaded ''model'' = field cfg ''model''"
    unfolding l using m by simp
  have d: "\<forall>p. \<not> truthy (field cfg ''model'') \<and> declared = Some p \<longrightarrow>
                field loaded ''model'' = JStr (defaultModel p)"
    unfolding l by (simp add: map_of_set_field)
  have n: "\<not> truthy (field cfg ''model'') \<and> declared = None \<longrightarrow>
                field loaded ''model'' = field cfg ''model''"
    unfolding l using m by simp
  have e: "\<forall>s e. s \<noteq> [] \<and> JSON_parse s = Inl e \<longrightarrow>
                reload JSON_parse (localStorage(''ai-draw-config'' \<mapsto> s)) =
                  \<lparr>config = JObj [(''provider'', JStr ''openai''), (''apiKey'', JStr []),
                                  (''model'', JStr ''gpt-4'')],
                   console = [''Failed to parse saved config:'']\<rparr>"
    by (simp add: reload_def load_def parse_saved_malformed initial_state_def)
  show ?thesis using o t d n e by blast
qed

lemma parse_known_refuses:
  "parse_known
     [JObj [(''provider'', JStr ''google''), (''apiKey'', JStr ''k'')]] ''{not json'' =
   Inl SyntaxError"
  by code_simp

theorem C10_save_then_reload_witness:
  "parse_known [JObj [(''provider'', JStr ''google''), (''apiKey'', JStr ''k'')]]
     (serialize (JObj [(''provider'', JStr ''google''), (''apiKey'', JStr ''k''),
                       (''model'', JUndef)])) =
     Inr (JObj [(''provider'', JStr ''google''), (''apiKey'', JStr ''k'')])
   \<and> field
        (config
          (reload (parse_known [JObj [(''provider'', JStr ''google''), (''apiKey'', JStr ''k'')]])
             (handleSave
                (initial_state
                   \<lparr>config := JObj [(''provider'', JStr ''google''), (''apiKey'', JStr ''k''),
                                    (''model'', JUndef)]\<rparr>)
                Map.empty)))
        ''model'' = JStr ''gemini-1.5-pro''
   \<and> field
        (config
          (reload (parse_known [JObj [(''provider'', JStr ''google''), (''apiKey'', JStr ''k'')]])
             (handleSave
                (initial_state
                   \<lparr>config := JObj [(''provider'', JStr ''google''), (''apiKey'', JStr ''k''),
                                    (''model'', JUndef)]\<rparr>)
                Map.empty)))
        ''apiKey'' = JStr ''k''
   \<and> reload (parse_known [JObj [(''provider'', JStr ''google''), (''apiKey'', JStr ''k'')]])
        (Map.empty(''ai-draw-config'' \<mapsto> ''{not json'')) =
       \<lparr>config = JObj [(''provider'', JStr ''openai''), (''apiKey'', JStr []),
                       (''model'', JStr ''gpt-4'')],
        console = [''Failed to parse saved config:'']\<rparr>"
proof -
  have rt: "parse_known [JObj [(''provider'', JStr ''google''), (''apiKey'', JStr ''k'')]]
              (serialize (JObj [(''provider'', JStr ''google''), (''apiKey'', JStr ''k''),
                                (''model'', JUndef)])) =
            Inr (JObj [(''provider'', JStr ''google''), (''apiKey'', JStr ''k'')])"
    by (simp add: parse_known_def)
  have same: "\<forall>k. field (JObj [(''provider'', JStr ''google''), (''apiKey'', JStr ''k'')]) k =
                  field (JObj [(''provider'', JStr ''google''), (''apiKey'', JStr ''k''),
                               (''model'', JUndef)]) k"
    by simp
  have f: "find (\<lambda>p. JStr (provider_id p) = JStr ''google'') providers =
             Some (providers ! 2)"
    by (simp add: providers_def)
  have d: "defaultModel (providers ! 2) = ''gemini-1.5-pro''"
    by (simp add: providers_def)
  from C10_save_then_reload
         [where JSON_parse =
                  "parse_known [JObj [(''provider'', JStr ''google''), (''apiKey'', JStr ''k'')]]"
            and kvs = "[(''provider'', JStr ''google''), (''apiKey'', JStr ''k''),
                        (''model'', JUndef)]"
            and kvs' = "[(''provider'', JStr ''google''), (''apiKey'', JStr ''k'')]"
            and st = initial_state and localStorage = Map.empty, OF rt same]
  show ?thesis
    using rt parse_known_refuses f d by simp
qed

text \<open>
  C10 as it is stated fails: a configuration whose model is present and empty is stored
  with that model, and comes back with the default model of its provider.
\<close>

theorem C10_empty_model_counterexample:
  \<open>field empty_model_config ''model'' = JStr []
   \<and> handleSave \<lparr>config = empty_model_config, console = []\<rparr> Map.empty ''ai-draw-config'' =
       Some ''{"provider":"openai","apiKey":"k","model":""}''
   \<and> parse_known [empty_model_config] ''{"provider":"openai","apiKey":"k","model":""}'' =
       Inr empty_model_config
   \<and> field
        (config
           (reload (parse_known [empty_model_config])
              (handleSave \<lparr>config = empty_model_config, console = []\<rparr> Map.empty)))
        ''model'' = JStr ''gpt-4''\<close>
  by code_simp

end
